theory Spec2Isabelle
  imports Main
begin

section \<open>Python values and exceptions\<close>

text \<open>
  The bridge is Python. Its functions raise exceptions, so every function of the model
  returns a sum: \<open>Inl\<close> carries the exception (its class and \<open>str(e)\<close>), \<open>Inr\<close> the
  value. Only subclasses of \<open>Exception\<close> are represented: they are what the handlers
  \<open>except Exception\<close> of the source catch.
\<close>

datatype exc_class =
  TypeError | ValueError | AttributeError | ZeroDivisionError | OverflowError
  | SyntaxError | RuntimeError | ConnectionClosed | OtherError string

datatype exn = Exn (exn_class: exc_class) (exn_str: string)

text \<open>
  Strings are lists of 8-bit characters: the model covers the code points 0 to 255.
  Integers are Python's unbounded integers. Python's floating-point (and complex) numbers
  are not modelled: they are values of a type parameter \<open>'f\<close>, and every operation on
  them is a field of the record \<open>float_ops\<close>, which the functions below take as an
  argument. A theorem that holds for every \<open>float_ops\<close> holds for Python's arithmetic.
\<close>

datatype 'f py =
  PNone | PBool bool | PInt int | PFloat 'f | PStr string
  | PList "'f py list" | PDict "(string \<times> 'f py) list"

datatype unaryop = UAdd | USub | Not_op | Invert

datatype operator =
  Add | Sub | Mult | Div | Mod | Pow_op | FloorDiv | MatMult
  | LShift | RShift | BitOr | BitXor | BitAnd

record 'f float_ops =
  f_of_int :: "int \<Rightarrow> exn + 'f"
  f_unary :: "unaryop \<Rightarrow> 'f \<Rightarrow> 'f"
  f_binary :: "operator \<Rightarrow> 'f \<Rightarrow> 'f \<Rightarrow> exn + 'f"
  f_int_truediv :: "int \<Rightarrow> int \<Rightarrow> exn + 'f"
  f_abs_gt :: "'f \<Rightarrow> int \<Rightarrow> bool"
  f_is_float_zero :: "'f \<Rightarrow> bool"
  f_zero :: "'f"
  f_truthy :: "'f \<Rightarrow> bool"
  f_repr :: "'f \<Rightarrow> string"
  f_json :: "'f \<Rightarrow> exn + string"
  f_literal :: "string \<Rightarrow> 'f"

text \<open>
  \<open>f_of_int\<close> is the conversion of an integer operand (OverflowError when it is too
  large), \<open>f_int_truediv\<close> the quotient \<open>a / b\<close> of two integers with \<open>b \<noteq> 0\<close>,
  \<open>f_abs_gt x k\<close> the test \<open>abs(x) > k\<close>, \<open>f_is_float_zero x\<close> the test
  \<open>isinstance(x, float) and x == 0\<close>, \<open>f_zero\<close> the value \<open>0.0\<close>, \<open>f_repr\<close> is
  \<open>str\<close>, \<open>f_json\<close> what \<open>json.dumps\<close> writes (or raises) and \<open>f_literal\<close>
  the number that a literal with a fraction or an exponent denotes.
\<close>

fun truthy :: "'f float_ops \<Rightarrow> 'f py \<Rightarrow> bool" where
  "truthy fo PNone = False"
| "truthy fo (PBool b) = b"
| "truthy fo (PInt i) = (i \<noteq> 0)"
| "truthy fo (PFloat x) = f_truthy fo x"
| "truthy fo (PStr s) = (s \<noteq> [])"
| "truthy fo (PList xs) = (\<not> List.null xs)"
| "truthy fo (PDict kvs) = (\<not> List.null kvs)"

fun type_name :: "'f py \<Rightarrow> string" where
  "type_name PNone = ''NoneType''"
| "type_name (PBool b) = ''bool''"
| "type_name (PInt i) = ''int''"
| "type_name (PFloat x) = ''float''"
| "type_name (PStr s) = ''str''"
| "type_name (PList xs) = ''list''"
| "type_name (PDict kvs) = ''dict''"

definition quoted :: "string \<Rightarrow> string" where
  "quoted s = CHR 0x27 # s @ [CHR 0x27]"

definition no_attribute :: "'f py \<Rightarrow> string \<Rightarrow> exn" where
  "no_attribute v a =
     Exn AttributeError (quoted (type_name v) @ '' object has no attribute '' @ quoted a)"

subsection \<open>String methods\<close>

definition py_isspace :: "char \<Rightarrow> bool" where
  "py_isspace c =
     (let n = (of_char c :: nat)
      in (9 \<le> n \<and> n \<le> 13) \<or> (28 \<le> n \<and> n \<le> 32) \<or> n = 133 \<or> n = 160)"

definition py_strip :: "string \<Rightarrow> string" where
  "py_strip s = rev (dropWhile py_isspace (rev (dropWhile py_isspace s)))"

definition py_replace_caret :: "string \<Rightarrow> string" where
  "py_replace_caret s = concat (map (\<lambda>c. if c = CHR ''^'' then ''**'' else [c]) s)"

section \<open>The calculator (tools/calculator.py)\<close>

subsection \<open>Syntax trees of the ast module\<close>

datatype 'f const_value =
  CInt int | CBool bool | CFloat 'f | CComplex 'f | CStr string | CBytes string
  | CNone | CEllipsis

datatype 'f node =
  Expression "'f node"
  | Constant "'f const_value"
  | UnaryOp unaryop "'f node"
  | BinOp "'f node" operator "'f node"
  | Name string
  | Call "'f node" "'f node list"
  | Attribute "'f node" string
  | OtherNode

text \<open>
  \<open>OtherNode\<close> stands for every node class the evaluator has no branch for (Compare,
  BoolOp, IfExp, Lambda, List, Tuple, Dict, Subscript, ...).
\<close>

subsection \<open>Numbers and the operator module\<close>

datatype 'f num = NInt int | NBool bool | NInexact 'f

fun as_int :: "'f num \<Rightarrow> int option" where
  "as_int (NInt i) = Some i"
| "as_int (NBool b) = Some (if b then 1 else 0)"
| "as_int (NInexact x) = None"

fun to_inexact :: "'f float_ops \<Rightarrow> 'f num \<Rightarrow> exn + 'f" where
  "to_inexact fo (NInt i) = f_of_int fo i"
| "to_inexact fo (NBool b) = f_of_int fo (if b then 1 else 0)"
| "to_inexact fo (NInexact x) = Inr x"

definition inexact_binop ::
  "'f float_ops \<Rightarrow> operator \<Rightarrow> 'f num \<Rightarrow> 'f num \<Rightarrow> exn + 'f num" where
  "inexact_binop fo oper l r =
     (case to_inexact fo l of
        Inl e \<Rightarrow> Inl e
      | Inr x \<Rightarrow>
          (case to_inexact fo r of
             Inl e \<Rightarrow> Inl e
           | Inr y \<Rightarrow>
               (case f_binary fo oper x y of
                  Inl e \<Rightarrow> Inl e
                | Inr z \<Rightarrow> Inr (NInexact z))))"

definition op_add :: "'f float_ops \<Rightarrow> 'f num \<Rightarrow> 'f num \<Rightarrow> exn + 'f num" where
  "op_add fo l r =
     (case (as_int l, as_int r) of
        (Some a, Some b) \<Rightarrow> Inr (NInt (a + b))
      | _ \<Rightarrow> inexact_binop fo Add l r)"

definition op_sub :: "'f float_ops \<Rightarrow> 'f num \<Rightarrow> 'f num \<Rightarrow> exn + 'f num" where
  "op_sub fo l r =
     (case (as_int l, as_int r) of
        (Some a, Some b) \<Rightarrow> Inr (NInt (a - b))
      | _ \<Rightarrow> inexact_binop fo Sub l r)"

definition op_mul :: "'f float_ops \<Rightarrow> 'f num \<Rightarrow> 'f num \<Rightarrow> exn + 'f num" where
  "op_mul fo l r =
     (case (as_int l, as_int r) of
        (Some a, Some b) \<Rightarrow> Inr (NInt (a * b))
      | _ \<Rightarrow> inexact_binop fo Mult l r)"

definition op_truediv :: "'f float_ops \<Rightarrow> 'f num \<Rightarrow> 'f num \<Rightarrow> exn + 'f num" where
  "op_truediv fo l r =
     (case (as_int l, as_int r) of
        (Some a, Some b) \<Rightarrow>
          (if b = 0 then Inl (Exn ZeroDivisionError ''division by zero'')
           else (case f_int_truediv fo a b of
                   Inl e \<Rightarrow> Inl e
                 | Inr z \<Rightarrow> Inr (NInexact z)))
      | _ \<Rightarrow> inexact_binop fo Div l r)"

definition op_mod :: "'f float_ops \<Rightarrow> 'f num \<Rightarrow> 'f num \<Rightarrow> exn + 'f num" where
  "op_mod fo l r =
     (case (as_int l, as_int r) of
        (Some a, Some b) \<Rightarrow>
          (if b = 0 then Inl (Exn ZeroDivisionError ''integer modulo by zero'')
           else Inr (NInt (a mod b)))
      | _ \<Rightarrow> inexact_binop fo Mod l r)"

text \<open>
  An integer raised to a negative integer is computed on floats by CPython; a
  non-negative exponent gives the exact integer. The wording of the interpreter's own
  messages (here for a zero divisor, below for a call that does not fit the parameters)
  is that of CPython 3.12.
\<close>

definition op_pow :: "'f float_ops \<Rightarrow> 'f num \<Rightarrow> 'f num \<Rightarrow> exn + 'f num" where
  "op_pow fo l r =
     (case (as_int l, as_int r) of
        (Some a, Some b) \<Rightarrow>
          (if 0 \<le> b then Inr (NInt (a ^ nat b)) else inexact_binop fo Pow_op l r)
      | _ \<Rightarrow> inexact_binop fo Pow_op l r)"

fun op_pos :: "'f float_ops \<Rightarrow> 'f num \<Rightarrow> 'f num" where
  "op_pos fo (NInt i) = NInt i"
| "op_pos fo (NBool b) = NInt (if b then 1 else 0)"
| "op_pos fo (NInexact x) = NInexact (f_unary fo UAdd x)"

fun op_neg :: "'f float_ops \<Rightarrow> 'f num \<Rightarrow> 'f num" where
  "op_neg fo (NInt i) = NInt (- i)"
| "op_neg fo (NBool b) = NInt (if b then - 1 else 0)"
| "op_neg fo (NInexact x) = NInexact (f_unary fo USub x)"

text \<open>The two tables of allowed operators, as maps from the operator class.\<close>

fun ALLOWED_BIN_OPS ::
  "operator \<Rightarrow> ('f float_ops \<Rightarrow> 'f num \<Rightarrow> 'f num \<Rightarrow> exn + 'f num) option" where
  "ALLOWED_BIN_OPS Add = Some op_add"
| "ALLOWED_BIN_OPS Sub = Some op_sub"
| "ALLOWED_BIN_OPS Mult = Some op_mul"
| "ALLOWED_BIN_OPS Div = Some op_truediv"
| "ALLOWED_BIN_OPS Mod = Some op_mod"
| "ALLOWED_BIN_OPS Pow_op = Some op_pow"
| "ALLOWED_BIN_OPS _ = None"

fun ALLOWED_UNARY_OPS :: "unaryop \<Rightarrow> ('f float_ops \<Rightarrow> 'f num \<Rightarrow> 'f num) option" where
  "ALLOWED_UNARY_OPS UAdd = Some op_pos"
| "ALLOWED_UNARY_OPS USub = Some op_neg"
| "ALLOWED_UNARY_OPS _ = None"

text \<open>\<open>abs(v) > k\<close>, for the two bounds of the exponentiation guard (1e6 and 12).\<close>

fun abs_gt :: "'f float_ops \<Rightarrow> 'f num \<Rightarrow> int \<Rightarrow> bool" where
  "abs_gt fo (NInt i) k = (\<bar>i\<bar> > k)"
| "abs_gt fo (NBool b) k = ((if b then 1 else 0) > k)"
| "abs_gt fo (NInexact x) k = f_abs_gt fo x k"

subsection \<open>The evaluator\<close>

fun safe_eval_node :: "'f float_ops \<Rightarrow> 'f node \<Rightarrow> nat \<Rightarrow> exn + 'f num" where
  "safe_eval_node fo (Expression body) depth =
     (if depth > 20 then Inl (Exn ValueError ''Expression too complex'')
      else safe_eval_node fo body (depth + 1))"
| "safe_eval_node fo (Constant c) depth =
     (if depth > 20 then Inl (Exn ValueError ''Expression too complex'')
      else (case c of
              CInt i \<Rightarrow> Inr (NInt i)
            | CBool b \<Rightarrow> Inr (NBool b)
            | CFloat x \<Rightarrow> Inr (NInexact x)
            | _ \<Rightarrow> Inl (Exn ValueError ''Only numbers are allowed'')))"
| "safe_eval_node fo (UnaryOp uop operand) depth =
     (if depth > 20 then Inl (Exn ValueError ''Expression too complex'')
      else (case ALLOWED_UNARY_OPS uop of
              Some f \<Rightarrow>
                (case safe_eval_node fo operand (depth + 1) of
                   Inl e \<Rightarrow> Inl e
                 | Inr v \<Rightarrow> Inr (f fo v))
            | None \<Rightarrow> Inl (Exn ValueError ''Unsupported expression'')))"
| "safe_eval_node fo (BinOp lhs oper rhs) depth =
     (if depth > 20 then Inl (Exn ValueError ''Expression too complex'')
      else (case ALLOWED_BIN_OPS oper of
              Some f \<Rightarrow>
                (case safe_eval_node fo lhs (depth + 1) of
                   Inl e \<Rightarrow> Inl e
                 | Inr left \<Rightarrow>
                     (case safe_eval_node fo rhs (depth + 1) of
                        Inl e \<Rightarrow> Inl e
                      | Inr right \<Rightarrow>
                          (if oper = Pow_op \<and> (abs_gt fo left 1000000 \<or> abs_gt fo right 12)
                           then Inl (Exn ValueError ''Exponent too large'')
                           else f fo left right)))
            | None \<Rightarrow> Inl (Exn ValueError ''Unsupported expression'')))"
| "safe_eval_node fo other depth =
     (if depth > 20 then Inl (Exn ValueError ''Expression too complex'')
      else Inl (Exn ValueError ''Unsupported expression''))"

fun num_to_py :: "'f num \<Rightarrow> 'f py" where
  "num_to_py (NInt i) = PInt i"
| "num_to_py (NBool b) = PBool b"
| "num_to_py (NInexact x) = PFloat x"

text \<open>The normalisation of \<open>-0.0\<close> at the end of \<open>calculate\<close>.\<close>

fun normalize_zero :: "'f float_ops \<Rightarrow> 'f num \<Rightarrow> 'f num" where
  "normalize_zero fo (NInexact x) = (if f_is_float_zero fo x then NInexact (f_zero fo) else NInexact x)"
| "normalize_zero fo v = v"

definition error_result :: "string \<Rightarrow> 'f py" where
  "error_result m = PDict [(''error'', PStr m)]"

text \<open>
  \<open>ast.parse\<close> belongs to the standard library, not to the repository: \<open>calculate\<close>
  takes it as the argument \<open>parse\<close>. The body of the \<open>try\<close> is \<open>calculate_body\<close>;
  \<open>calculate\<close> adds the handler \<open>except Exception as e: return {"error": str(e)}\<close>.
\<close>

definition calculate_body ::
  "'f float_ops \<Rightarrow> (string \<Rightarrow> exn + 'f node) \<Rightarrow> 'f py \<Rightarrow> exn + 'f py" where
  "calculate_body fo parse expression =
     (case (if truthy fo expression then expression else PStr '''') of
        PStr s \<Rightarrow>
          (let expr = py_strip s
           in if expr = [] then Inr (error_result ''Empty expression'')
              else (case parse (py_replace_caret expr) of
                      Inl e \<Rightarrow> Inl e
                    | Inr tree \<Rightarrow>
                        (case safe_eval_node fo tree 0 of
                           Inl e \<Rightarrow> Inl e
                         | Inr result \<Rightarrow>
                             Inr (PDict [(''result'', num_to_py (normalize_zero fo result))]))))
      | v \<Rightarrow> Inl (no_attribute v ''strip''))"

definition calculate ::
  "'f float_ops \<Rightarrow> (string \<Rightarrow> exn + 'f node) \<Rightarrow> 'f py \<Rightarrow> 'f py" where
  "calculate fo parse expression =
     (case calculate_body fo parse expression of
        Inl e \<Rightarrow> error_result (exn_str e)
      | Inr r \<Rightarrow> r)"

section \<open>Text of values: str, repr and json.dumps\<close>

definition digit_char :: "nat \<Rightarrow> char" where
  "digit_char n = ''0123456789abcdef'' ! (n mod 16)"

fun show_nat :: "nat \<Rightarrow> string" where
  "show_nat n =
     (if n < 10 then [digit_char n] else show_nat (n div 10) @ [digit_char (n mod 10)])"

declare show_nat.simps [simp del]

definition show_int :: "int \<Rightarrow> string" where
  "show_int i = (if i < 0 then CHR ''-'' # show_nat (nat (- i)) else show_nat (nat i))"

fun join :: "string \<Rightarrow> string list \<Rightarrow> string" where
  "join sep [] = []"
| "join sep [x] = x"
| "join sep (x # y # ys) = x @ sep @ join sep (y # ys)"

fun sequence :: "('e + 'a) list \<Rightarrow> 'e + 'a list" where
  "sequence [] = Inr []"
| "sequence (Inl e # xs) = Inl e"
| "sequence (Inr x # xs) = (case sequence xs of Inl e \<Rightarrow> Inl e | Inr ys \<Rightarrow> Inr (x # ys))"

text \<open>
  \<open>json.dumps\<close> with its default settings: \<open>ensure_ascii\<close>, the separators
  \<open>", "\<close> and \<open>": "\<close>, keys in insertion order. Every dictionary of the program has
  string keys. The limit that recent CPython versions put on the number of digits of an
  integer converted to text is not modelled.
\<close>

definition json_escape_char :: "char \<Rightarrow> string" where
  \<open>json_escape_char c =
     (let n = (of_char c :: nat)
      in if c = CHR ''"'' then [CHR 0x5C, CHR ''"'']
         else if c = CHR 0x5C then [CHR 0x5C, CHR 0x5C]
         else if n = 10 then [CHR 0x5C, CHR ''n'']
         else if n = 13 then [CHR 0x5C, CHR ''r'']
         else if n = 9 then [CHR 0x5C, CHR ''t'']
         else if n = 12 then [CHR 0x5C, CHR ''f'']
         else if n = 8 then [CHR 0x5C, CHR ''b'']
         else if 32 \<le> n \<and> n \<le> 126 then [c]
         else [CHR 0x5C, CHR ''u'', CHR ''0'', CHR ''0'',
               digit_char (n div 16), digit_char (n mod 16)])\<close>

definition json_string :: "string \<Rightarrow> string" where
  \<open>json_string s = CHR ''"'' # concat (map json_escape_char s) @ [CHR ''"'']\<close>

fun json_dumps :: "'f float_ops \<Rightarrow> 'f py \<Rightarrow> exn + string" where
  "json_dumps fo PNone = Inr ''null''"
| "json_dumps fo (PBool b) = Inr (if b then ''true'' else ''false'')"
| "json_dumps fo (PInt i) = Inr (show_int i)"
| "json_dumps fo (PFloat x) = f_json fo x"
| "json_dumps fo (PStr s) = Inr (json_string s)"
| "json_dumps fo (PList xs) =
     (case sequence (map (json_dumps fo) xs) of
        Inl e \<Rightarrow> Inl e
      | Inr ts \<Rightarrow> Inr (''['' @ join '', '' ts @ '']''))"
| "json_dumps fo (PDict kvs) =
     (case sequence (map (\<lambda>(k, v). case json_dumps fo v of
                                      Inl e \<Rightarrow> Inl e
                                    | Inr t \<Rightarrow> Inr (json_string k @ '': '' @ t)) kvs) of
        Inl e \<Rightarrow> Inl e
      | Inr ts \<Rightarrow> Inr (''{'' @ join '', '' ts @ ''}''))"

text \<open>\<open>repr\<close> of a string, and \<open>str\<close> of a value (the text an f-string inserts).\<close>

definition repr_char :: "char \<Rightarrow> char \<Rightarrow> string" where
  "repr_char q c =
     (let n = (of_char c :: nat)
      in if c = q \<or> c = CHR 0x5C then [CHR 0x5C, c]
         else if n = 9 then [CHR 0x5C, CHR ''t'']
         else if n = 10 then [CHR 0x5C, CHR ''n'']
         else if n = 13 then [CHR 0x5C, CHR ''r'']
         else if n < 32 \<or> (127 \<le> n \<and> n \<le> 160) \<or> n = 173
           then [CHR 0x5C, CHR ''x'', digit_char (n div 16), digit_char (n mod 16)]
         else [c])"

definition repr_str :: "string \<Rightarrow> string" where
  \<open>repr_str s =
     (let q = (if CHR 0x27 \<in> set s \<and> CHR ''"'' \<notin> set s then CHR ''"'' else CHR 0x27)
      in q # concat (map (repr_char q) s) @ [q])\<close>

fun py_repr :: "'f float_ops \<Rightarrow> 'f py \<Rightarrow> string" where
  "py_repr fo PNone = ''None''"
| "py_repr fo (PBool b) = (if b then ''True'' else ''False'')"
| "py_repr fo (PInt i) = show_int i"
| "py_repr fo (PFloat x) = f_repr fo x"
| "py_repr fo (PStr s) = repr_str s"
| "py_repr fo (PList xs) = ''['' @ join '', '' (map (py_repr fo) xs) @ '']''"
| "py_repr fo (PDict kvs) =
     ''{'' @ join '', '' (map (\<lambda>(k, v). repr_str k @ '': '' @ py_repr fo v) kvs) @ ''}''"

definition py_str :: "'f float_ops \<Rightarrow> 'f py \<Rightarrow> string" where
  "py_str fo v = (case v of PStr s \<Rightarrow> s | _ \<Rightarrow> py_repr fo v)"

subsection \<open>Dictionaries\<close>

definition py_get_default :: "(string \<times> 'f py) list \<Rightarrow> string \<Rightarrow> 'f py \<Rightarrow> 'f py" where
  "py_get_default d k dflt = (case map_of d k of Some v \<Rightarrow> v | None \<Rightarrow> dflt)"

definition py_get :: "(string \<times> 'f py) list \<Rightarrow> string \<Rightarrow> 'f py" where
  "py_get d k = py_get_default d k PNone"

section \<open>Calling a Python function\<close>

text \<open>
  A function of the registry is its name, its parameters in order (each with its default
  when it has one) and its body, which reads the bound parameters by name. Both
  capabilities of the repository have positional-or-keyword parameters only.
  \<open>call_kw\<close> is the call \<open>f(**kwargs)\<close>, \<open>call_pos1\<close> the call \<open>f(v)\<close>; a call
  that does not fit the parameters raises TypeError before the body runs.
\<close>

record 'f pyfun =
  fn_name :: string
  fn_params :: "(string \<times> 'f py option) list"
  fn_body :: "(string \<Rightarrow> 'f py) \<Rightarrow> exn + 'f py"

fun names_text :: "string list \<Rightarrow> string" where
  "names_text [] = []"
| "names_text [a] = quoted a"
| "names_text [a, b] = quoted a @ '' and '' @ quoted b"
| "names_text (a # b # c # cs) =
     (if cs = [] then quoted a @ '', '' @ quoted b @ '', and '' @ quoted c
      else quoted a @ '', '' @ names_text (b # c # cs))"

definition missing_error :: "string \<Rightarrow> string list \<Rightarrow> exn" where
  "missing_error f ms =
     Exn TypeError
       (f @ ''() missing '' @ show_nat (length ms) @ '' required positional argument''
          @ (if length ms = 1 then [] else ''s'') @ '': '' @ names_text ms)"

definition bind_defaults :: "(string \<times> 'f py option) list \<Rightarrow> string \<Rightarrow> 'f py" where
  "bind_defaults ps p = (case map_of ps p of Some (Some d) \<Rightarrow> d | _ \<Rightarrow> PNone)"

definition call_kw :: "'f pyfun \<Rightarrow> (string \<times> 'f py) list \<Rightarrow> exn + 'f py" where
  "call_kw f kwargs =
     (case filter (\<lambda>k. k \<notin> set (map fst (fn_params f))) (map fst kwargs) of
        k # _ \<Rightarrow>
          Inl (Exn TypeError (fn_name f @ ''() got an unexpected keyword argument '' @ quoted k))
      | [] \<Rightarrow>
          (case filter (\<lambda>p. Option.is_none (map_of kwargs p))
                  (map fst (filter (\<lambda>(p, d). Option.is_none d) (fn_params f))) of
             [] \<Rightarrow>
               fn_body f (\<lambda>p. case map_of kwargs p of
                                 Some v \<Rightarrow> v
                               | None \<Rightarrow> bind_defaults (fn_params f) p)
           | ms \<Rightarrow> Inl (missing_error (fn_name f) ms)))"

definition call_pos1 :: "'f pyfun \<Rightarrow> 'f py \<Rightarrow> exn + 'f py" where
  "call_pos1 f v =
     (case fn_params f of
        [] \<Rightarrow>
          Inl (Exn TypeError (fn_name f @ ''() takes 0 positional arguments but 1 was given''))
      | (p0, _) # rest \<Rightarrow>
          (case map fst (filter (\<lambda>(p, d). Option.is_none d) rest) of
             [] \<Rightarrow> fn_body f (\<lambda>p. if p = p0 then v else bind_defaults rest p)
           | ms \<Rightarrow> Inl (missing_error (fn_name f) ms)))"

section \<open>The financial lookup (tools/plaid_tool.py)\<close>

definition py_lower_char :: "char \<Rightarrow> char" where
  "py_lower_char c =
     (let n = (of_char c :: nat)
      in if (65 \<le> n \<and> n \<le> 90) \<or> (192 \<le> n \<and> n \<le> 222 \<and> n \<noteq> 215)
         then char_of (n + 32) else c)"

definition py_lower :: "string \<Rightarrow> string" where
  "py_lower s = map py_lower_char s"

definition FRIENDLY_TO_ENV :: "(string \<times> string) list" where
  "FRIENDLY_TO_ENV =
     [(''discover'', ''PLAID_ACCESS_TOKEN_DISCOVER''),
      (''huntington'', ''PLAID_ACCESS_TOKEN_HUNTINGTON''),
      (''ally'', ''PLAID_ACCESS_TOKEN_ALLY''),
      (''pnc'', ''PLAID_ACCESS_TOKEN_PNC'')]"

definition NAME_SYNONYMS :: "(string \<times> string list) list" where
  "NAME_SYNONYMS =
     [(''discover'', [''discover'', ''discover credit card'']),
      (''huntington'', [''huntington'', ''huntington national bank'']),
      (''ally'', [''ally'', ''ally bank'', ''ally money market'', ''ally money market account'']),
      (''pnc'', [''pnc'', ''pnc bank'', ''pnc checking'', ''pnc savings''])]"

definition normalize_account_name :: "string \<Rightarrow> string option" where
  "normalize_account_name name =
     (if name = [] then None
      else (let s = py_lower (py_strip name)
            in if s = ''all'' then Some ''all''
               else (case find (\<lambda>(canonical, variants). s \<in> set variants) NAME_SYNONYMS of
                       Some (canonical, variants) \<Rightarrow> Some canonical
                     | None \<Rightarrow>
                         (if s \<in> set (map fst FRIENDLY_TO_ENV) then Some s else None))))"

text \<open>
  What the module reads from outside the program is a record: the environment variables,
  whether the package \<open>plaid\<close> can be imported, what that package does when the
  client is built, and the two branches that talk to the Plaid service (the summary of
  balances, and the download of transactions into a file). The package is not part of
  the repository: \<open>plaid_api_client a client_id secret\<close> stands for reading the
  attribute \<open>a\<close> of its class \<open>Environment\<close> and for the three constructors
  \<open>Configuration\<close>, \<open>ApiClient\<close> and \<open>PlaidApi\<close>, and is the client or the
  exception that one of them raises.
\<close>

type_synonym plaid_client = "string \<times> string \<times> string"

record 'f plaid_env =
  getenv :: "string \<Rightarrow> string option"
  plaid_installed :: bool
  plaid_api_client :: "string \<Rightarrow> string \<Rightarrow> string \<Rightarrow> exn + plaid_client"
  balances_branch :: "plaid_client \<Rightarrow> (string \<times> string) list \<Rightarrow> exn + 'f py"
  transactions_branch ::
    "plaid_client \<Rightarrow> (string \<times> string) list \<Rightarrow> 'f py \<Rightarrow> 'f py \<Rightarrow> exn + 'f py"

definition getenv_truthy :: "'f plaid_env \<Rightarrow> string \<Rightarrow> string option" where
  "getenv_truthy env k = (case getenv env k of Some v \<Rightarrow> (if v = [] then None else Some v) | None \<Rightarrow> None)"

definition init_plaid_client :: "'f plaid_env \<Rightarrow> exn + plaid_client" where
  "init_plaid_client env =
     (if \<not> plaid_installed env
      then Inl (Exn RuntimeError
                  (''Missing dependency '' @ quoted ''plaid-python''
                     @ ''. Install with: pip install plaid-python''))
      else (let e = py_lower (py_strip (case getenv_truthy env ''PLAID_ENV'' of
                                          Some v \<Rightarrow> v | None \<Rightarrow> ''sandbox''))
            in (case (getenv_truthy env ''PLAID_CLIENT_ID'', getenv_truthy env ''PLAID_SECRET'') of
                  (Some client_id, Some secret) \<Rightarrow>
                    plaid_api_client env
                      (if e = ''production'' then ''Production''
                       else if e = ''development'' then ''Development''
                       else ''Sandbox'')
                      client_id secret
                | _ \<Rightarrow>
                    Inl (Exn RuntimeError
                           ''PLAID_CLIENT_ID and PLAID_SECRET must be set in environment''))))"

definition available_accounts :: "'f plaid_env \<Rightarrow> (string \<times> string) list" where
  "available_accounts env =
     concat (map (\<lambda>(friendly, env_key).
                    case getenv_truthy env env_key of
                      Some token \<Rightarrow> [(friendly, token)]
                    | None \<Rightarrow> []) FRIENDLY_TO_ENV)"

text \<open>What a \<open>for\<close> loop iterates over: the items of a list, the keys of a dictionary.\<close>

definition py_iter :: "'f py \<Rightarrow> exn + 'f py list" where
  "py_iter v =
     (case v of
        PList xs \<Rightarrow> Inr xs
      | PDict kvs \<Rightarrow> Inr (map (\<lambda>(k, x). PStr k) kvs)
      | PStr s \<Rightarrow> Inr (map (\<lambda>c. PStr [c]) s)
      | _ \<Rightarrow> Inl (Exn TypeError (quoted (type_name v) @ '' object is not iterable'')))"

fun resolve_loop ::
  "'f float_ops \<Rightarrow> (string \<times> string) list \<Rightarrow> (string \<times> string) list \<Rightarrow> 'f py list
     \<Rightarrow> (string \<times> string) list" where
  "resolve_loop fo available resolved [] = resolved"
| "resolve_loop fo available resolved (n # ns) =
     (case normalize_account_name (py_str fo n) of
        None \<Rightarrow> resolve_loop fo available resolved ns
      | Some norm \<Rightarrow>
          (if norm = ''all'' then available
           else (case map_of available norm of
                   Some token \<Rightarrow>
                     resolve_loop fo available
                       (if (norm, token) \<in> set resolved then resolved
                        else resolved @ [(norm, token)]) ns
                 | None \<Rightarrow> resolve_loop fo available resolved ns)))"

text \<open>
  The two sorted lists of the error message: the keys of \<open>FRIENDLY_TO_ENV\<close> in
  alphabetical order, and those of them that have a token.
\<close>

definition no_accounts_error :: "(string \<times> string) list \<Rightarrow> exn" where
  "no_accounts_error available =
     (let sorted_names = [''ally'', ''discover'', ''huntington'', ''pnc''];
          present = filter (\<lambda>k. k \<in> set (map fst available)) sorted_names
      in Exn ValueError
           (''No accounts resolved. Allowed names: '' @ join '', '' sorted_names
              @ ''. Tokens present for: ''
              @ (if present = [] then ''none'' else join '', '' present)
              @ ''. Use '' @ quoted ''all'' @ '' to include all with tokens.''))"

definition resolve_selected_accounts ::
  "'f plaid_env \<Rightarrow> 'f float_ops \<Rightarrow> 'f py \<Rightarrow> exn + (string \<times> string) list" where
  "resolve_selected_accounts env fo account_names =
     (let available = available_accounts env
      in (case (case account_names of
                  PStr s \<Rightarrow>
                    (case normalize_account_name s of
                       None \<Rightarrow> Inr []
                     | Some norm \<Rightarrow>
                         (if norm = ''all'' then Inr available
                          else (case map_of available norm of
                                  Some token \<Rightarrow> Inr [(norm, token)]
                                | None \<Rightarrow> Inr [])))
                | v \<Rightarrow>
                    (case py_iter v of
                       Inl e \<Rightarrow> Inl e
                     | Inr ns \<Rightarrow> Inr (resolve_loop fo available [] ns))) of
            Inl e \<Rightarrow> Inl e
          | Inr resolved \<Rightarrow>
              (if resolved = [] then Inl (no_accounts_error available) else Inr resolved)))"

definition invalid_request_type :: string where
  "invalid_request_type =
     ''Invalid request_type. Use '' @ quoted ''balance'' @ '' or '' @ quoted ''transactions'' @ ''.''"

text \<open>\<open>(request_type or "").strip().lower()\<close>\<close>

definition request_type_text :: "'f float_ops \<Rightarrow> 'f py \<Rightarrow> exn + string" where
  "request_type_text fo request_type =
     (case (if truthy fo request_type then request_type else PStr []) of
        PStr s \<Rightarrow> Inr (py_lower (py_strip s))
      | v \<Rightarrow> Inl (no_attribute v ''strip''))"

definition get_financial_info_body ::
  "'f plaid_env \<Rightarrow> 'f float_ops \<Rightarrow> 'f py \<Rightarrow> 'f py \<Rightarrow> 'f py \<Rightarrow> 'f py \<Rightarrow> exn + 'f py" where
  "get_financial_info_body env fo account_names request_type start_date end_date =
     (case init_plaid_client env of
        Inl e \<Rightarrow> Inl e
      | Inr client \<Rightarrow>
          (case resolve_selected_accounts env fo account_names of
             Inl e \<Rightarrow> Inl e
           | Inr selected \<Rightarrow>
               (case request_type_text fo request_type of
                  Inl e \<Rightarrow> Inl e
                | Inr rtype \<Rightarrow>
                    (if rtype \<notin> set [''balance'', ''balances'', ''transactions'', ''txns'', ''txn'']
                     then Inr (error_result invalid_request_type)
                     else if rtype \<in> set [''balance'', ''balances'']
                     then balances_branch env client selected
                     else transactions_branch env client selected start_date end_date))))"

definition get_financial_info ::
  "'f plaid_env \<Rightarrow> 'f float_ops \<Rightarrow> 'f py \<Rightarrow> 'f py \<Rightarrow> 'f py \<Rightarrow> 'f py \<Rightarrow> 'f py" where
  "get_financial_info env fo account_names request_type start_date end_date =
     (case get_financial_info_body env fo account_names request_type start_date end_date of
        Inl e \<Rightarrow> error_result (exn_str e)
      | Inr r \<Rightarrow> r)"

section \<open>The registry (tools/function_mapper.py)\<close>

definition calculate_fn ::
  "'f float_ops \<Rightarrow> (string \<Rightarrow> exn + 'f node) \<Rightarrow> 'f pyfun" where
  "calculate_fn fo parse =
     \<lparr>fn_name = ''calculate'',
      fn_params = [(''expression'', None)],
      fn_body = (\<lambda>l. Inr (calculate fo parse (l ''expression'')))\<rparr>"

definition get_financial_info_fn :: "'f plaid_env \<Rightarrow> 'f float_ops \<Rightarrow> 'f pyfun" where
  "get_financial_info_fn env fo =
     \<lparr>fn_name = ''get_financial_info'',
      fn_params = [(''account_names'', None), (''request_type'', None),
                   (''start_date'', Some PNone), (''end_date'', Some PNone)],
      fn_body = (\<lambda>l. Inr (get_financial_info env fo (l ''account_names'') (l ''request_type'')
                             (l ''start_date'') (l ''end_date'')))\<rparr>"

definition FUNCTION_MAP ::
  "'f float_ops \<Rightarrow> (string \<Rightarrow> exn + 'f node) \<Rightarrow> 'f plaid_env \<Rightarrow> string \<Rightarrow> 'f pyfun option" where
  "FUNCTION_MAP fo parse env =
     map_of [(''calculate'', calculate_fn fo parse),
             (''get_financial_info'', get_financial_info_fn env fo)]"

section \<open>The function dispatcher (main.py)\<close>

text \<open>
  The connection, as the dispatcher sees it: the text messages sent so far, in order, and
  which sends succeed (\<open>accepts w k\<close>: the send that follows \<open>k\<close> sent messages
  succeeds). A send that fails raises and sends nothing.
\<close>

record ws =
  sent :: "string list"
  accepts :: "nat \<Rightarrow> bool"

definition ws_send :: "ws \<Rightarrow> string \<Rightarrow> exn + ws" where
  "ws_send w m =
     (if accepts w (length (sent w)) then Inr (w\<lparr>sent := sent w @ [m]\<rparr>)
      else Inl (Exn ConnectionClosed ''no close frame received or sent''))"

definition create_function_call_response ::
  "'f float_ops \<Rightarrow> 'f py \<Rightarrow> 'f py \<Rightarrow> 'f py \<Rightarrow> exn + 'f py" where
  "create_function_call_response fo func_id func_name result =
     (case json_dumps fo result of
        Inl e \<Rightarrow> Inl e
      | Inr content \<Rightarrow>
          Inr (PDict [(''type'', PStr ''FunctionCallResponse''),
                      (''id'', func_id),
                      (''name'', func_name),
                      (''content'', PStr content)]))"

text \<open>
  \<open>json.loads\<close> belongs to the standard library: the dispatcher takes it as the
  argument \<open>loads\<close>. It raises TypeError on a value that is not text; the handler
  \<open>except Exception\<close> around it turns every failure into the empty dictionary.
\<close>

definition parse_arguments ::
  "(string \<Rightarrow> exn + 'f py) \<Rightarrow> (string \<times> 'f py) list \<Rightarrow> 'f py" where
  "parse_arguments loads function_call =
     (case py_get_default function_call ''arguments'' (PStr ''{}'') of
        PStr s \<Rightarrow> (case loads s of Inl e \<Rightarrow> PDict [] | Inr v \<Rightarrow> v)
      | _ \<Rightarrow> PDict [])"

text \<open>\<open>func_name in FUNCTION_MAP\<close> and \<open>FUNCTION_MAP[func_name]\<close>: a list or a
  dictionary cannot be hashed.\<close>

definition lookup_function ::
  "(string \<Rightarrow> 'f pyfun option) \<Rightarrow> 'f py \<Rightarrow> exn + 'f pyfun option" where
  "lookup_function function_map func_name =
     (case func_name of
        PStr s \<Rightarrow> Inr (function_map s)
      | PList xs \<Rightarrow> Inl (Exn TypeError (''unhashable type: '' @ quoted ''list''))
      | PDict kvs \<Rightarrow> Inl (Exn TypeError (''unhashable type: '' @ quoted ''dict''))
      | _ \<Rightarrow> Inr None)"

text \<open>
  \<open>arguments.get("expression") or arguments.get("query") or arguments.get("input")\<close>
\<close>

definition fallback_argument :: "'f float_ops \<Rightarrow> (string \<times> 'f py) list \<Rightarrow> 'f py" where
  "fallback_argument fo arguments =
     (if truthy fo (py_get arguments ''expression'') then py_get arguments ''expression''
      else if truthy fo (py_get arguments ''query'') then py_get arguments ''query''
      else py_get arguments ''input'')"

definition call_with_kwargs :: "'f pyfun \<Rightarrow> 'f py \<Rightarrow> exn + 'f py" where
  "call_with_kwargs f arguments =
     (case arguments of
        PDict kwargs \<Rightarrow> call_kw f kwargs
      | v \<Rightarrow>
          Inl (Exn TypeError
                 (fn_name f @ ''() argument after ** must be a mapping, not '' @ type_name v)))"

text \<open>The inner \<open>try\<close>: the call with keyword arguments, and the retry on TypeError.\<close>

definition invoke :: "'f float_ops \<Rightarrow> 'f pyfun \<Rightarrow> 'f py \<Rightarrow> exn + 'f py" where
  "invoke fo f arguments =
     (case call_with_kwargs f arguments of
        Inr result \<Rightarrow> Inr result
      | Inl e \<Rightarrow>
          (if exn_class e = TypeError
           then (case arguments of
                   PDict kwargs \<Rightarrow> call_pos1 f (fallback_argument fo kwargs)
                 | v \<Rightarrow> Inl (no_attribute v ''get''))
           else Inl e))"

text \<open>
  One pass through the body of the \<open>for\<close> loop. It returns the local variables
  \<open>func_id\<close> and \<open>func_name\<close> (unset before the first entry that is a dictionary),
  the connection, and the exception that left the body, if one did.
\<close>

type_synonym 'f locals = "('f py \<times> 'f py) option"

definition handle_function_call ::
  "(string \<Rightarrow> 'f pyfun option) \<Rightarrow> (string \<Rightarrow> exn + 'f py) \<Rightarrow> 'f float_ops
     \<Rightarrow> 'f locals \<Rightarrow> ws \<Rightarrow> 'f py \<Rightarrow> 'f locals \<times> ws \<times> exn option" where
  "handle_function_call function_map loads fo locs w function_call =
     (case function_call of
        PDict fc \<Rightarrow>
          (let func_name = py_get fc ''name'';
               func_id = py_get fc ''id'';
               arguments = parse_arguments loads fc
           in (case (case lookup_function function_map func_name of
                       Inl e \<Rightarrow> Inl e
                     | Inr (Some f) \<Rightarrow> invoke fo f arguments
                     | Inr None \<Rightarrow>
                         Inr (error_result (''Unknown function: '' @ py_str fo func_name))) of
                 Inl e \<Rightarrow> (Some (func_id, func_name), w, Some e)
               | Inr result \<Rightarrow>
                   (case create_function_call_response fo func_id func_name result of
                      Inl e \<Rightarrow> (Some (func_id, func_name), w, Some e)
                    | Inr response \<Rightarrow>
                        (case json_dumps fo response of
                           Inl e \<Rightarrow> (Some (func_id, func_name), w, Some e)
                         | Inr text \<Rightarrow>
                             (case ws_send w text of
                                Inl e \<Rightarrow> (Some (func_id, func_name), w, Some e)
                              | Inr w' \<Rightarrow> (Some (func_id, func_name), w', None))))))
      | v \<Rightarrow> (locs, w, Some (no_attribute v ''get'')))"

fun dispatch_loop ::
  "(string \<Rightarrow> 'f pyfun option) \<Rightarrow> (string \<Rightarrow> exn + 'f py) \<Rightarrow> 'f float_ops
     \<Rightarrow> 'f locals \<Rightarrow> ws \<Rightarrow> 'f py list \<Rightarrow> 'f locals \<times> ws \<times> exn option" where
  "dispatch_loop function_map loads fo locs w [] = (locs, w, None)"
| "dispatch_loop function_map loads fo locs w (function_call # rest) =
     (case handle_function_call function_map loads fo locs w function_call of
        (locs', w', Some e) \<Rightarrow> (locs', w', Some e)
      | (locs', w', None) \<Rightarrow> dispatch_loop function_map loads fo locs' w' rest)"

text \<open>
  The handler of the outer \<open>try\<close>: one reply with the identifier and the name that are
  set, \<open>"unknown"\<close> otherwise. An exception raised here leaves the dispatcher.
\<close>

definition send_failure :: "'f float_ops \<Rightarrow> 'f locals \<Rightarrow> ws \<Rightarrow> exn \<Rightarrow> ws \<times> exn option" where
  "send_failure fo locs w e =
     (let (func_id, func_name) =
            (case locs of Some l \<Rightarrow> l | None \<Rightarrow> (PStr ''unknown'', PStr ''unknown''))
      in (case create_function_call_response fo func_id func_name
                 (error_result (''Function call failed: '' @ exn_str e)) of
            Inl e' \<Rightarrow> (w, Some e')
          | Inr err \<Rightarrow>
              (case json_dumps fo err of
                 Inl e' \<Rightarrow> (w, Some e')
               | Inr text \<Rightarrow>
                   (case ws_send w text of
                      Inl e' \<Rightarrow> (w, Some e')
                    | Inr w' \<Rightarrow> (w', None)))))"

definition handle_function_call_request ::
  "(string \<Rightarrow> 'f pyfun option) \<Rightarrow> (string \<Rightarrow> exn + 'f py) \<Rightarrow> 'f float_ops
     \<Rightarrow> (string \<times> 'f py) list \<Rightarrow> ws \<Rightarrow> ws \<times> exn option" where
  "handle_function_call_request function_map loads fo decoded w =
     (case (case py_iter (py_get_default decoded ''functions'' (PList [])) of
              Inl e \<Rightarrow> (None, w, Some e)
            | Inr function_calls \<Rightarrow> dispatch_loop function_map loads fo None w function_calls) of
        (locs, w', None) \<Rightarrow> (w', None)
      | (locs, w', Some e) \<Rightarrow> send_failure fo locs w' e)"

text \<open>
  What the receiving loop does with one text message: it decodes it, hands a
  \<open>FunctionCallRequest\<close> to the dispatcher, and passes over every exception.
\<close>

definition receive_text ::
  "(string \<Rightarrow> 'f pyfun option) \<Rightarrow> (string \<Rightarrow> exn + 'f py) \<Rightarrow> 'f float_ops
     \<Rightarrow> ws \<Rightarrow> string \<Rightarrow> ws" where
  "receive_text function_map loads fo w message =
     (case loads message of
        Inl e \<Rightarrow> w
      | Inr (PDict decoded) \<Rightarrow>
          (case py_get decoded ''type'' of
             PStr t \<Rightarrow>
               (if t = ''FunctionCallRequest''
                then fst (handle_function_call_request function_map loads fo decoded w)
                else w)
           | _ \<Rightarrow> w)
      | Inr _ \<Rightarrow> w)"

section \<open>Models of the two library parsers\<close>

text \<open>
  The theorems that hold for every input take \<open>ast.parse\<close> and \<open>json.loads\<close> as
  arguments. The examples need their values at concrete texts; the two functions of this
  section compute them. \<open>json_loads_model\<close> follows the decoder of the json module on
  texts whose escapes stay below code point 256; the wording of its error messages is
  not reproduced. \<open>ast_parse_model\<close> follows CPython's grammar on a fragment of
  expressions: decimal numbers, names, \<open>True\<close>, \<open>False\<close>, \<open>None\<close>, the unary
  operators \<open>+ - ~\<close>, the binary operators \<open>+ - * / // % **\<close> and parentheses. A text
  outside the fragment is answered with SyntaxError, also where CPython accepts it, and
  CPython's limits on nesting are not modelled.
\<close>

definition is_digit :: "char \<Rightarrow> bool" where
  "is_digit c = (let n = (of_char c :: nat) in 48 \<le> n \<and> n \<le> 57)"

definition digit_val :: "char \<Rightarrow> nat" where
  "digit_val c = of_char c - 48"

definition nat_of_digits :: "string \<Rightarrow> nat" where
  "nat_of_digits ds = foldl (\<lambda>a c. 10 * a + digit_val c) 0 ds"

text \<open>The fraction and the exponent of a number, when they follow it.\<close>

definition scan_exponent :: "string \<Rightarrow> string \<times> string" where
  "scan_exponent s =
     (case s of
        e # r \<Rightarrow>
          (if e = CHR ''e'' \<or> e = CHR ''E''
           then (let (sg, r') = (case r of
                                  [] \<Rightarrow> ([], r)
                                | x # xs \<Rightarrow>
                                    (if x = CHR ''+'' \<or> x = CHR ''-'' then ([x], xs) else ([], r)))
                 in (case r' of
                       d # _ \<Rightarrow>
                         (if is_digit d
                          then (e # sg @ takeWhile is_digit r', dropWhile is_digit r')
                          else ([], s))
                     | [] \<Rightarrow> ([], s)))
           else ([], s))
      | [] \<Rightarrow> ([], s))"

subsection \<open>json.loads\<close>

definition json_ws :: "char \<Rightarrow> bool" where
  "json_ws c = (let n = (of_char c :: nat) in n = 32 \<or> n = 9 \<or> n = 10 \<or> n = 13)"

definition json_number :: "'f float_ops \<Rightarrow> string \<Rightarrow> ('f py \<times> string) option" where
  "json_number fo s =
     (let (neg, r0) = (case s of
                         [] \<Rightarrow> (False, s)
                       | c # r \<Rightarrow> (if c = CHR ''-'' then (True, r) else (False, s)))
      in (case r0 of
            [] \<Rightarrow> None
          | c # r \<Rightarrow>
              (if \<not> is_digit c then None
               else (let (ip, r1) = (if c = CHR ''0'' then ([c], r)
                                     else (c # takeWhile is_digit r, dropWhile is_digit r));
                         (frac, r2) = (case r1 of
                                         p # d # r' \<Rightarrow>
                                           (if p = CHR ''.'' \<and> is_digit d
                                            then (p # d # takeWhile is_digit r',
                                                  dropWhile is_digit r')
                                            else ([], r1))
                                       | _ \<Rightarrow> ([], r1));
                         (ex, r3) = scan_exponent r2
                     in if frac = [] \<and> ex = []
                        then Some (PInt (if neg then - int (nat_of_digits ip)
                                         else int (nat_of_digits ip)), r3)
                        else Some (PFloat (f_literal fo
                                     ((if neg then ''-'' else []) @ ip @ frac @ ex)), r3)))))"

definition hex_val :: "char \<Rightarrow> nat option" where
  "hex_val c =
     (let n = (of_char c :: nat)
      in if 48 \<le> n \<and> n \<le> 57 then Some (n - 48)
         else if 97 \<le> n \<and> n \<le> 102 then Some (n - 87)
         else if 65 \<le> n \<and> n \<le> 70 then Some (n - 55)
         else None)"

definition json_simple_escape :: "char \<Rightarrow> char option" where
  \<open>json_simple_escape c =
     (if c = CHR ''"'' \<or> c = CHR 0x5C \<or> c = CHR ''/'' then Some c
      else if c = CHR ''b'' then Some (CHR 0x08)
      else if c = CHR ''f'' then Some (CHR 0x0C)
      else if c = CHR ''n'' then Some (CHR 0x0A)
      else if c = CHR ''r'' then Some (CHR 0x0D)
      else if c = CHR ''t'' then Some (CHR 0x09)
      else None)\<close>

text \<open>The text of a string after its opening quote, up to the closing one.\<close>

fun json_scanstring :: "string \<Rightarrow> string \<Rightarrow> (string \<times> string) option" where
  "json_scanstring acc [] = None"
| "json_scanstring acc (c # r) =
     (if c = CHR 0x22 then Some (acc, r)
      else if c = CHR 0x5C
      then (case r of
              [] \<Rightarrow> None
            | e # r' \<Rightarrow>
                (if e = CHR ''u''
                 then (case r' of
                         a # b # c' # d # r'' \<Rightarrow>
                           (case (hex_val a, hex_val b, hex_val c', hex_val d) of
                              (Some 0, Some 0, Some h, Some l) \<Rightarrow>
                                json_scanstring (acc @ [char_of (16 * h + l)]) r''
                            | _ \<Rightarrow> None)
                       | _ \<Rightarrow> None)
                 else (case json_simple_escape e of
                         None \<Rightarrow> None
                       | Some x \<Rightarrow> json_scanstring (acc @ [x]) r')))
      else if (of_char c :: nat) < 32 then None
      else json_scanstring (acc @ [c]) r)"

text \<open>A key that occurs twice keeps its place and takes the later value.\<close>

fun dict_set :: "(string \<times> 'a) list \<Rightarrow> string \<Rightarrow> 'a \<Rightarrow> (string \<times> 'a) list" where
  "dict_set [] k v = [(k, v)]"
| "dict_set ((k', v') # kvs) k v =
     (if k' = k then (k, v) # kvs else (k', v') # dict_set kvs k v)"

definition strip_prefix :: "string \<Rightarrow> string \<Rightarrow> string option" where
  "strip_prefix p s = (if take (length p) s = p then Some (drop (length p) s) else None)"

fun json_value :: "'f float_ops \<Rightarrow> nat \<Rightarrow> string \<Rightarrow> ('f py \<times> string) option"
  and json_array :: "'f float_ops \<Rightarrow> nat \<Rightarrow> 'f py list \<Rightarrow> string \<Rightarrow> ('f py \<times> string) option"
  and json_object ::
    "'f float_ops \<Rightarrow> nat \<Rightarrow> (string \<times> 'f py) list \<Rightarrow> string \<Rightarrow> ('f py \<times> string) option"
where
  "json_value fo 0 s = None"
| "json_value fo (Suc n) s =
     (case s of
        [] \<Rightarrow> None
      | c # r \<Rightarrow>
          (if c = CHR 0x22
           then (case json_scanstring [] r of
                   None \<Rightarrow> None
                 | Some (str, r') \<Rightarrow> Some (PStr str, r'))
           else if c = CHR ''{''
           then (case dropWhile json_ws r of
                   [] \<Rightarrow> None
                 | c' # r' \<Rightarrow>
                     (if c' = CHR ''}'' then Some (PDict [], r')
                      else json_object fo n [] (c' # r')))
           else if c = CHR ''[''
           then (case dropWhile json_ws r of
                   [] \<Rightarrow> None
                 | c' # r' \<Rightarrow>
                     (if c' = CHR '']'' then Some (PList [], r')
                      else json_array fo n [] (c' # r')))
           else (case strip_prefix ''null'' s of
                   Some r' \<Rightarrow> Some (PNone, r')
                 | None \<Rightarrow>
           (case strip_prefix ''true'' s of
                   Some r' \<Rightarrow> Some (PBool True, r')
                 | None \<Rightarrow>
           (case strip_prefix ''false'' s of
                   Some r' \<Rightarrow> Some (PBool False, r')
                 | None \<Rightarrow>
           (case json_number fo s of
                   Some res \<Rightarrow> Some res
                 | None \<Rightarrow>
           (case strip_prefix ''NaN'' s of
                   Some r' \<Rightarrow> Some (PFloat (f_literal fo ''nan''), r')
                 | None \<Rightarrow>
           (case strip_prefix ''Infinity'' s of
                   Some r' \<Rightarrow> Some (PFloat (f_literal fo ''inf''), r')
                 | None \<Rightarrow>
           (case strip_prefix ''-Infinity'' s of
                   Some r' \<Rightarrow> Some (PFloat (f_literal fo ''-inf''), r')
                 | None \<Rightarrow> None)))))))))"
| "json_array fo 0 acc s = None"
| "json_array fo (Suc n) acc s =
     (case json_value fo n s of
        None \<Rightarrow> None
      | Some (v, r) \<Rightarrow>
          (case dropWhile json_ws r of
             [] \<Rightarrow> None
           | c # r' \<Rightarrow>
               (if c = CHR '']'' then Some (PList (acc @ [v]), r')
                else if c = CHR '','' then json_array fo n (acc @ [v]) (dropWhile json_ws r')
                else None)))"
| "json_object fo 0 acc s = None"
| "json_object fo (Suc n) acc s =
     (case s of
        [] \<Rightarrow> None
      | q # r \<Rightarrow>
          (if q \<noteq> CHR 0x22 then None
           else (case json_scanstring [] r of
                   None \<Rightarrow> None
                 | Some (key, r1) \<Rightarrow>
                     (case dropWhile json_ws r1 of
                        [] \<Rightarrow> None
                      | c # r2 \<Rightarrow>
                          (if c \<noteq> CHR '':'' then None
                           else (case json_value fo n (dropWhile json_ws r2) of
                                   None \<Rightarrow> None
                                 | Some (v, r3) \<Rightarrow>
                                     (case dropWhile json_ws r3 of
                                        [] \<Rightarrow> None
                                      | c' # r4 \<Rightarrow>
                                          (if c' = CHR ''}''
                                           then Some (PDict (dict_set acc key v), r4)
                                           else if c' = CHR '',''
                                           then json_object fo n (dict_set acc key v)
                                                  (dropWhile json_ws r4)
                                           else None))))))))"

definition json_loads_model :: "'f float_ops \<Rightarrow> string \<Rightarrow> exn + 'f py" where
  "json_loads_model fo s =
     (case json_value fo (Suc (length s)) (dropWhile json_ws s) of
        None \<Rightarrow> Inl (Exn ValueError ''Expecting value'')
      | Some (v, r) \<Rightarrow>
          (if dropWhile json_ws r = [] then Inr v else Inl (Exn ValueError ''Extra data'')))"

subsection \<open>ast.parse in mode eval\<close>

datatype 'f token = TNum "'f const_value" | TName string | TSym string

definition is_name_start :: "char \<Rightarrow> bool" where
  "is_name_start c =
     (let n = (of_char c :: nat)
      in (65 \<le> n \<and> n \<le> 90) \<or> (97 \<le> n \<and> n \<le> 122) \<or> n = 95)"

definition is_name_char :: "char \<Rightarrow> bool" where
  "is_name_char c = (is_name_start c \<or> is_digit c)"

text \<open>
  A decimal number at the head of the text: an integer, or a floating-point literal when
  a point or an exponent follows. A number with leading zeros, or one that runs into a
  letter, is refused.
\<close>

definition scan_number :: "'f float_ops \<Rightarrow> string \<Rightarrow> ('f token \<times> string) option" where
  "scan_number fo s =
     (let ip = takeWhile is_digit s;
          r1 = dropWhile is_digit s;
          (frac, r2) = (case r1 of
                          [] \<Rightarrow> ([], r1)
                        | p # r' \<Rightarrow>
                            (if p = CHR ''.''
                             then (p # takeWhile is_digit r', dropWhile is_digit r')
                             else ([], r1)));
          (ex, r3) = scan_exponent r2
      in if ip = [] \<and> length frac \<le> 1 then None
         else if (case r3 of [] \<Rightarrow> False | c # _ \<Rightarrow> is_name_char c \<or> c = CHR ''.'') then None
         else if frac = [] \<and> ex = []
         then (if length ip > 1 \<and> hd ip = CHR ''0'' \<and> nat_of_digits ip \<noteq> 0 then None
               else Some (TNum (CInt (int (nat_of_digits ip))), r3))
         else Some (TNum (CFloat (f_literal fo (ip @ frac @ ex))), r3))"

fun tokenize :: "'f float_ops \<Rightarrow> nat \<Rightarrow> string \<Rightarrow> 'f token list option" where
  "tokenize fo 0 s = (if s = [] then Some [] else None)"
| "tokenize fo (Suc n) s =
     (case s of
        [] \<Rightarrow> Some []
      | c # r \<Rightarrow>
          (if c = CHR '' '' \<or> c = CHR 0x09 then tokenize fo n r
           else if is_digit c \<or> c = CHR ''.''
           then (case scan_number fo s of
                   None \<Rightarrow> None
                 | Some (t, r') \<Rightarrow> map_option (Cons t) (tokenize fo n r'))
           else if is_name_start c
           then map_option (Cons (TName (takeWhile is_name_char s)))
                  (tokenize fo n (dropWhile is_name_char s))
           else if c = CHR ''*'' \<and> take 1 r = ''*''
           then map_option (Cons (TSym ''**'')) (tokenize fo n (drop 1 r))
           else if c = CHR ''/'' \<and> take 1 r = ''/''
           then map_option (Cons (TSym ''//'')) (tokenize fo n (drop 1 r))
           else if c \<in> set ''+-*/%()~''
           then map_option (Cons (TSym [c])) (tokenize fo n r)
           else None))"

definition python_keywords :: "string list" where
  "python_keywords =
     [''and'', ''as'', ''assert'', ''async'', ''await'', ''break'', ''class'', ''continue'',
      ''def'', ''del'', ''elif'', ''else'', ''except'', ''finally'', ''for'', ''from'',
      ''global'', ''if'', ''import'', ''in'', ''is'', ''lambda'', ''nonlocal'', ''not'',
      ''or'', ''pass'', ''raise'', ''return'', ''try'', ''while'', ''with'', ''yield'']"

definition name_node :: "string \<Rightarrow> 'f node option" where
  "name_node x =
     (if x = ''True'' then Some (Constant (CBool True))
      else if x = ''False'' then Some (Constant (CBool False))
      else if x = ''None'' then Some (Constant CNone)
      else if x \<in> set python_keywords then None
      else Some (Name x))"

definition sum_op :: "string \<Rightarrow> operator option" where
  "sum_op s = (if s = ''+'' then Some Add else if s = ''-'' then Some Sub else None)"

definition term_op :: "string \<Rightarrow> operator option" where
  "term_op s =
     (if s = ''*'' then Some Mult else if s = ''/'' then Some Div
      else if s = ''//'' then Some FloorDiv else if s = ''%'' then Some Mod else None)"

definition factor_op :: "string \<Rightarrow> unaryop option" where
  "factor_op s =
     (if s = ''+'' then Some UAdd else if s = ''-'' then Some USub
      else if s = ''~'' then Some Invert else None)"

text \<open>
  The levels of the grammar, from the loosest: sum, term, factor, power, atom. The two
  levels with a left operand in hand continue a chain of binary operators. The first
  argument of the parser bounds the depth of the calls.
\<close>

datatype 'f level =
  LSum | LSumRest "'f node" | LTerm | LTermRest "'f node" | LFactor | LPower | LAtom

fun p_level :: "nat \<Rightarrow> 'f level \<Rightarrow> 'f token list \<Rightarrow> ('f node \<times> 'f token list) option" where
  "p_level 0 lv ts = None"
| "p_level (Suc n) LSum ts =
     (case p_level n LTerm ts of None \<Rightarrow> None | Some (l, r) \<Rightarrow> p_level n (LSumRest l) r)"
| "p_level (Suc n) (LSumRest l) ts =
     (case ts of
        TSym s # r \<Rightarrow>
          (case sum_op s of
             Some oper \<Rightarrow>
               (case p_level n LTerm r of
                  None \<Rightarrow> None
                | Some (t, r') \<Rightarrow> p_level n (LSumRest (BinOp l oper t)) r')
           | None \<Rightarrow> Some (l, ts))
      | _ \<Rightarrow> Some (l, ts))"
| "p_level (Suc n) LTerm ts =
     (case p_level n LFactor ts of None \<Rightarrow> None | Some (l, r) \<Rightarrow> p_level n (LTermRest l) r)"
| "p_level (Suc n) (LTermRest l) ts =
     (case ts of
        TSym s # r \<Rightarrow>
          (case term_op s of
             Some oper \<Rightarrow>
               (case p_level n LFactor r of
                  None \<Rightarrow> None
                | Some (t, r') \<Rightarrow> p_level n (LTermRest (BinOp l oper t)) r')
           | None \<Rightarrow> Some (l, ts))
      | _ \<Rightarrow> Some (l, ts))"
| "p_level (Suc n) LFactor ts =
     (case ts of
        TSym s # r \<Rightarrow>
          (case factor_op s of
             Some uop \<Rightarrow>
               (case p_level n LFactor r of
                  None \<Rightarrow> None
                | Some (e, r') \<Rightarrow> Some (UnaryOp uop e, r'))
           | None \<Rightarrow> p_level n LPower ts)
      | _ \<Rightarrow> p_level n LPower ts)"
| "p_level (Suc n) LPower ts =
     (case p_level n LAtom ts of
        None \<Rightarrow> None
      | Some (b, r) \<Rightarrow>
          (case r of
             TSym s # r' \<Rightarrow>
               (if s = ''**''
                then (case p_level n LFactor r' of
                        None \<Rightarrow> None
                      | Some (e, r'') \<Rightarrow> Some (BinOp b Pow_op e, r''))
                else Some (b, r))
           | _ \<Rightarrow> Some (b, r)))"
| "p_level (Suc n) LAtom ts =
     (case ts of
        [] \<Rightarrow> None
      | TNum c # r \<Rightarrow> Some (Constant c, r)
      | TName x # r \<Rightarrow>
          (case name_node x of None \<Rightarrow> None | Some e \<Rightarrow> Some (e, r))
      | TSym s # r \<Rightarrow>
          (if s = ''(''
           then (case p_level n LSum r of
                   Some (e, TSym s' # r') \<Rightarrow> (if s' = '')'' then Some (e, r') else None)
                 | _ \<Rightarrow> None)
           else None))"

definition syntax_error :: exn where
  "syntax_error = Exn SyntaxError ''invalid syntax (<unknown>, line 1)''"

definition ast_parse_model :: "'f float_ops \<Rightarrow> string \<Rightarrow> exn + 'f node" where
  "ast_parse_model fo s =
     (if take 1 s = '' '' \<or> take 1 s = [CHR 0x09] then Inl syntax_error
      else (case tokenize fo (Suc (length s)) s of
              None \<Rightarrow> Inl syntax_error
            | Some ts \<Rightarrow>
                (case p_level (8 * Suc (length ts)) LSum ts of
                   Some (e, []) \<Rightarrow> Inr (Expression e)
                 | _ \<Rightarrow> Inl syntax_error)))"

section \<open>An instance without floating-point numbers\<close>

text \<open>
  The examples below contain integers and text only. They are stated for this instance of
  \<open>float_ops\<close>, whose single value behaves like NaN and into which no integer
  converts, and for an environment without the Plaid package.
\<close>

definition no_float_ops :: "unit float_ops" where
  "no_float_ops =
     \<lparr>f_of_int = (\<lambda>i. Inl (Exn OverflowError ''int too large to convert to float'')),
      f_unary = (\<lambda>uop x. x),
      f_binary = (\<lambda>oper x y. Inr ()),
      f_int_truediv =
        (\<lambda>a b. Inl (Exn OverflowError ''integer division result too large for a float'')),
      f_abs_gt = (\<lambda>x k. False),
      f_is_float_zero = (\<lambda>x. False),
      f_zero = (),
      f_truthy = (\<lambda>x. True),
      f_repr = (\<lambda>x. ''nan''),
      f_json = (\<lambda>x. Inr ''NaN''),
      f_literal = (\<lambda>s. ())\<rparr>"

definition no_plaid_env :: "unit plaid_env" where
  "no_plaid_env =
     \<lparr>getenv = (\<lambda>k. None),
      plaid_installed = False,
      plaid_api_client =
        (\<lambda>a client_id secret. Inl (Exn RuntimeError ''the package is not installed'')),
      balances_branch = (\<lambda>client selected. Inr (PStr [])),
      transactions_branch = (\<lambda>client selected start_date end_date. Inr (PDict []))\<rparr>"


text \<open>
  An environment in which the Plaid client can be configured and one account (\<open>pnc\<close>)
  has a token; its two branches answer with fixed values. Its package has the
  environments \<open>Production\<close> and \<open>Sandbox\<close> only: reading another attribute of
  \<open>Environment\<close> raises AttributeError.
\<close>

definition sandbox_env :: "unit plaid_env" where
  "sandbox_env =
     \<lparr>getenv = map_of [(''PLAID_CLIENT_ID'', ''client''), (''PLAID_SECRET'', ''secret''),
                       (''PLAID_ACCESS_TOKEN_PNC'', ''token'')],
      plaid_installed = True,
      plaid_api_client =
        (\<lambda>a client_id secret.
           if a = ''Production'' \<or> a = ''Sandbox'' then Inr (a, client_id, secret)
           else Inl (Exn AttributeError
                       (''type object '' @ quoted ''Environment'' @ '' has no attribute ''
                          @ quoted a))),
      balances_branch = (\<lambda>client selected. Inr (PStr ''Pnc: No accounts found.'')),
      transactions_branch =
        (\<lambda>client selected start_date end_date.
           Inr (PDict [(''transactions_file'', PStr ''/backend/tmp/plaid_transactions.json'')]))\<rparr>"


definition open_ws :: ws where
  "open_ws = \<lparr>sent = [], accepts = (\<lambda>k. True)\<rparr>"

section \<open>Auxiliary notions for the statements\<close>


text \<open>
  The fallback argument as the specification words it: the value of the first of the keys
  \<open>expression\<close>, \<open>query\<close>, \<open>input\<close> that is present in the arguments.
\<close>

definition spec_first_present :: "(string \<times> 'f py) list \<Rightarrow> 'f py" where
  "spec_first_present arguments =
     (case map_of arguments ''expression'' of
        Some v \<Rightarrow> v
      | None \<Rightarrow>
          (case map_of arguments ''query'' of
             Some v \<Rightarrow> v
           | None \<Rightarrow> py_get arguments ''input''))"

text \<open>
  A tree mentions something that is not arithmetic when one of its nodes is a name, a
  call, an attribute access, a node of another class, or a constant that is not a number
  for \<open>isinstance(value, (int, float))\<close>. A Boolean constant passes that test, since
  \<open>bool\<close> is a subclass of \<open>int\<close>.
\<close>

fun numeric_constant :: "'f const_value \<Rightarrow> bool" where
  "numeric_constant (CInt i) = True"
| "numeric_constant (CBool b) = True"
| "numeric_constant (CFloat x) = True"
| "numeric_constant c = False"

fun mentions_non_arithmetic :: "'f node \<Rightarrow> bool" where
  "mentions_non_arithmetic (Expression body) = mentions_non_arithmetic body"
| "mentions_non_arithmetic (Constant c) = (\<not> numeric_constant c)"
| "mentions_non_arithmetic (UnaryOp uop operand) = mentions_non_arithmetic operand"
| "mentions_non_arithmetic (BinOp lhs oper rhs) =
     (mentions_non_arithmetic lhs \<or> mentions_non_arithmetic rhs)"
| "mentions_non_arithmetic other = True"

section \<open>Properties of the calculator\<close>

lemma py_strip_all_space:
  assumes "\<forall>c \<in> set s. py_isspace c"
  shows "py_strip s = []"
proof -
  from assms have "dropWhile py_isspace s = []" by simp
  then show ?thesis unfolding py_strip_def by (simp only: rev.simps dropWhile.simps)
qed

lemma py_strip_Nil: "py_strip [] = []"
  by (simp add: py_strip_def)

text \<open>
  Claim C9. For every input string that is empty or consists only of whitespace,
  \<open>calculate\<close> returns exactly \<open>{"error": "Empty expression"}\<close>, whatever the parser
  would do with the text: the parser is not reached.
\<close>

theorem calculate_empty_expression:
  assumes "\<forall>c \<in> set s. py_isspace c"
  shows "calculate fo parse (PStr s) = PDict [(''error'', PStr ''Empty expression'')]"
proof (cases "s = []")
  case True
  then show ?thesis
    by (simp add: calculate_def calculate_body_def error_result_def py_strip_Nil)
next
  case False
  with py_strip_all_space [OF assms] show ?thesis
    by (simp add: calculate_def calculate_body_def error_result_def)
qed

theorem calculate_empty_expression_witness:
  "calculate no_float_ops (ast_parse_model no_float_ops) (PStr [CHR '' '', CHR 0x09, CHR 0x0A])
     = PDict [(''error'', PStr ''Empty expression'')]"
proof -
  have h: "\<forall>c \<in> set [CHR '' '', CHR 0x09, CHR 0x0A]. py_isspace c"
    by (simp add: py_isspace_def)
  show ?thesis using calculate_empty_expression [OF h] .
qed







text \<open>
  What holds of claim C5. \<open>calculate\<close> returns for every argument, with an error
  result or a result; and a tree that mentions something that is not arithmetic is
  answered with an exception by the evaluator, hence with an error result.
\<close>

lemma calculate_body_shape:
  "calculate_body fo parse expression = Inr r \<Longrightarrow>
     r = PDict [(''error'', PStr ''Empty expression'')] \<or> (\<exists>v. r = PDict [(''result'', v)])"
  unfolding calculate_body_def Let_def error_result_def
  by (auto split: py.splits if_splits sum.splits)

lemma calculate_total:
  "(\<exists>m. calculate fo parse expression = PDict [(''error'', PStr m)])
     \<or> (\<exists>v. calculate fo parse expression = PDict [(''result'', v)])"
proof (cases "calculate_body fo parse expression")
  case (Inl e)
  then show ?thesis by (simp add: calculate_def error_result_def)
next
  case (Inr r)
  with calculate_body_shape [OF Inr] show ?thesis by (auto simp: calculate_def)
qed

lemma unaryop_operand_error:
  assumes "safe_eval_node fo operand (depth + 1) = Inl e"
  shows "\<exists>e'. safe_eval_node fo (UnaryOp uop operand) depth = Inl e'"
  using assms by (cases uop) simp_all

lemma binop_left_error:
  assumes "safe_eval_node fo lhs (depth + 1) = Inl e"
  shows "\<exists>e'. safe_eval_node fo (BinOp lhs oper rhs) depth = Inl e'"
  using assms by (cases oper) simp_all

lemma binop_right_error:
  assumes "safe_eval_node fo rhs (depth + 1) = Inl e"
  shows "\<exists>e'. safe_eval_node fo (BinOp lhs oper rhs) depth = Inl e'"
  using assms by (cases oper) (simp_all split: sum.splits)

lemma non_arithmetic_rejected:
  "mentions_non_arithmetic t \<Longrightarrow> \<exists>e. safe_eval_node fo t depth = Inl e"
proof (induction t arbitrary: depth)
  case (Expression body)
  then show ?case by simp
next
  case (Constant c)
  then show ?case by (cases c) simp_all
next
  case (UnaryOp uop operand)
  then obtain e where "safe_eval_node fo operand (depth + 1) = Inl e" by auto
  then show ?case by (rule unaryop_operand_error)
next
  case (BinOp lhs oper rhs)
  then consider "mentions_non_arithmetic lhs" | "mentions_non_arithmetic rhs" by auto
  then show ?case
  proof cases
    case 1
    with BinOp.IH(1) obtain e where "safe_eval_node fo lhs (depth + 1) = Inl e" by blast
    then show ?thesis by (rule binop_left_error)
  next
    case 2
    with BinOp.IH(2) obtain e where "safe_eval_node fo rhs (depth + 1) = Inl e" by blast
    then show ?thesis by (rule binop_right_error)
  qed
qed simp_all

text \<open>
  Claim C5 fails on the code. The text \<open>True\<close> is a literal that is not a number, and
  \<open>calculate\<close> answers it with a result, the Boolean itself: the test
  \<open>isinstance(node.value, (int, float))\<close> lets a \<open>bool\<close> through, against the
  evaluator's own message "Only numbers are allowed".
\<close>

theorem calculate_accepts_boolean_literal:
  "calculate no_float_ops (ast_parse_model no_float_ops) (PStr ''True'')
     = PDict [(''result'', PBool True)]
   \<and> json_dumps no_float_ops
        (calculate no_float_ops (ast_parse_model no_float_ops) (PStr ''True''))
     = Inr ''{\"result\": true}''
   \<and> calculate no_float_ops (ast_parse_model no_float_ops) (PStr ''True + True'')
     = PDict [(''result'', PInt 2)]"
  by code_simp

section \<open>Properties of the dispatcher\<close>

lemma json_dumps_error_result:
  "\<exists>content. json_dumps fo (PDict [(''error'', PStr m)]) = Inr content"
  by simp

lemma json_dumps_response:
  assumes "json_dumps fo i = Inr id_text" and "json_dumps fo n = Inr name_text"
  shows "\<exists>msg. json_dumps fo (PDict [(''type'', PStr t), (''id'', i), (''name'', n),
                                        (''content'', PStr c)]) = Inr msg"
  using assms by simp

lemma handle_unknown:
  assumes "lookup_function function_map (py_get fc ''name'') = Inr None"
      and "json_dumps fo (PDict [(''error'',
             PStr (''Unknown function: '' @ py_str fo (py_get fc ''name'')))]) = Inr content"
      and "json_dumps fo (PDict [(''type'', PStr ''FunctionCallResponse''),
                                 (''id'', py_get fc ''id''), (''name'', py_get fc ''name''),
                                 (''content'', PStr content)]) = Inr msg"
      and "accepts w (length (sent w))"
  shows "handle_function_call function_map loads fo locs w (PDict fc)
           = (Some (py_get fc ''id'', py_get fc ''name''), w\<lparr>sent := sent w @ [msg]\<rparr>, None)"
  using assms
  by (simp add: handle_function_call_def Let_def error_result_def
        create_function_call_response_def ws_send_def del: json_dumps.simps)

lemma dispatch_loop_append:
  "dispatch_loop function_map loads fo locs w (xs @ ys)
     = (case dispatch_loop function_map loads fo locs w xs of
          (locs', w', None) \<Rightarrow> dispatch_loop function_map loads fo locs' w' ys
        | (locs', w', Some e) \<Rightarrow> (locs', w', Some e))"
proof (induction xs arbitrary: locs w)
  case Nil
  show ?case by simp
next
  case (Cons x xs)
  show ?case
    by (cases "handle_function_call function_map loads fo locs w x")
       (auto simp: Cons.IH split: option.splits)
qed


lemma ws_send_sent: "ws_send w m = Inr w' \<Longrightarrow> sent w' = sent w @ [m]"
  by (auto simp: ws_send_def split: if_splits)

lemma handle_function_call_sent:
  assumes "handle_function_call function_map loads fo locs w x = (locs', w', r)"
  shows "\<exists>rest. sent w' = sent w @ rest"
proof (cases "\<exists>fc. x = PDict fc")
  case False
  with assms have "w' = w"
    by (cases x) (auto simp: handle_function_call_def)
  then show ?thesis by simp
next
  case True
  then obtain fc where x: "x = PDict fc" by blast
  show ?thesis
  proof (cases "w' = w")
    case True
    then show ?thesis by simp
  next
    case False
    with assms x obtain m where "ws_send w m = Inr w'"
      by (auto simp: handle_function_call_def Let_def simp del: json_dumps.simps
            split: sum.splits option.splits)
    then show ?thesis using ws_send_sent by blast
  qed
qed

lemma dispatch_loop_sent:
  "dispatch_loop function_map loads fo locs w xs = (locs', w', r)
     \<Longrightarrow> \<exists>rest. sent w' = sent w @ rest"
proof (induction xs arbitrary: locs w)
  case Nil
  then show ?case by simp
next
  case (Cons x xs)
  obtain l1 w1 r1 where h: "handle_function_call function_map loads fo locs w x = (l1, w1, r1)"
    by (cases "handle_function_call function_map loads fo locs w x") auto
  from handle_function_call_sent [OF h] obtain rest1 where s1: "sent w1 = sent w @ rest1"
    by blast
  show ?case
  proof (cases r1)
    case (Some e)
    with Cons.prems h have "w' = w1" by simp
    with s1 show ?thesis by blast
  next
    case None
    with Cons.prems h have "dispatch_loop function_map loads fo l1 w1 xs = (locs', w', r)"
      by simp
    from Cons.IH [OF this] obtain rest2 where "sent w' = sent w1 @ rest2" by blast
    with s1 show ?thesis by simp
  qed
qed

lemma send_failure_sent:
  "send_failure fo locs w e = (w', r) \<Longrightarrow> \<exists>rest. sent w' = sent w @ rest"
proof (cases "w' = w")
  case True
  then show ?thesis by simp
next
  case False
  assume "send_failure fo locs w e = (w', r)"
  with False obtain m where "ws_send w m = Inr w'"
    by (auto simp: send_failure_def Let_def simp del: json_dumps.simps
          split: sum.splits prod.splits option.splits)
  then show ?thesis using ws_send_sent by blast
qed

lemma finish_sent:
  assumes "dispatch_loop function_map loads fo locs w xs = (locs', w', r)"
  shows "\<exists>rest. sent (fst (case (locs', w', r) of
                              (l, v, None) \<Rightarrow> (v, None)
                            | (l, v, Some e) \<Rightarrow> send_failure fo l v e)) = sent w @ rest"
proof -
  from dispatch_loop_sent [OF assms] obtain rest1 where a: "sent w' = sent w @ rest1" by blast
  show ?thesis
  proof (cases r)
    case None
    with a show ?thesis by simp
  next
    case (Some e)
    obtain v q where s: "send_failure fo locs' w' e = (v, q)"
      by (cases "send_failure fo locs' w' e") auto
    from send_failure_sent [OF s] obtain rest2 where "sent v = sent w' @ rest2" by blast
    with a s Some show ?thesis by simp
  qed
qed

text \<open>
  Claim C3 says that every entry whose name is not in the registry gets a reply. An
  entry is answered only when the loop reaches it: in a request of two entries whose
  first calls \<open>get_financial_info\<close> with no arguments, the call and its retry raise
  TypeError, the dispatcher sends the failure reply for the first entry and returns, and
  the second entry, whose name \<open>nope\<close> is unknown, gets no reply.
\<close>

theorem unknown_entry_unanswered_counterexample:
  \<open>(case handle_function_call_request
            (FUNCTION_MAP no_float_ops (ast_parse_model no_float_ops) no_plaid_env)
            (json_loads_model no_float_ops) no_float_ops
            [(''type'', PStr ''FunctionCallRequest''),
             (''functions'',
              PList [PDict [(''id'', PStr ''1''), (''name'', PStr ''get_financial_info''),
                            (''arguments'', PStr ''{}'')],
                     PDict [(''id'', PStr ''2''), (''name'', PStr ''nope''),
                            (''arguments'', PStr ''{}'')]])]
            open_ws of
         (w, raised) \<Rightarrow> (sent w, raised))
     = ([''{"type": "FunctionCallResponse", "id": "1", "name": "get_financial_info", ''
           @ ''"content": "{'' @ [CHR 0x5C] @ ''"error'' @ [CHR 0x5C] @ ''": '' @ [CHR 0x5C]
           @ ''"Function call failed: get_financial_info() missing 1 required positional ''
           @ ''argument: '' @ quoted ''request_type'' @ [CHR 0x5C] @ ''"}"}''], None)\<close>
  by code_simp

text \<open>
  Claim C3 as amended. In a request whose entries before it have been answered without
  an exception, an entry whose name is not a key of the registry raises nothing: the
  loop body sends one message, the JSON text of the reply whose \<open>id\<close> and \<open>name\<close>
  are the entry's own and whose \<open>content\<close> is the JSON text of
  \<open>{"error": "Unknown function: <name>"}\<close>, and the loop goes on with the entries
  after it from that state. The message is among those the dispatcher has sent when it
  returns, right after the replies to the entries before. The hypotheses say that the
  name can be looked up (it is not a list or a dictionary), that \<open>id\<close> and
  \<open>name\<close> can be written as JSON, and that the connection accepts the send.
\<close>

theorem unknown_function_reply:
  assumes "map_of decoded ''functions'' = Some (PList (before @ PDict fc # later))"
      and "dispatch_loop function_map loads fo None w before = (locs1, w1, None)"
      and "lookup_function function_map (py_get fc ''name'') = Inr None"
      and "json_dumps fo (py_get fc ''id'') = Inr id_text"
      and "json_dumps fo (py_get fc ''name'') = Inr name_text"
      and "accepts w1 (length (sent w1))"
  shows "\<exists>content msg.
           json_dumps fo (PDict [(''error'',
               PStr (''Unknown function: '' @ py_str fo (py_get fc ''name'')))]) = Inr content
         \<and> json_dumps fo (PDict [(''type'', PStr ''FunctionCallResponse''),
                                  (''id'', py_get fc ''id''), (''name'', py_get fc ''name''),
                                  (''content'', PStr content)]) = Inr msg
         \<and> handle_function_call function_map loads fo locs1 w1 (PDict fc)
             = (Some (py_get fc ''id'', py_get fc ''name''), w1\<lparr>sent := sent w1 @ [msg]\<rparr>, None)
         \<and> dispatch_loop function_map loads fo None w (before @ PDict fc # later)
             = dispatch_loop function_map loads fo (Some (py_get fc ''id'', py_get fc ''name''))
                 (w1\<lparr>sent := sent w1 @ [msg]\<rparr>) later
         \<and> handle_function_call_request function_map loads fo decoded w
             = (case dispatch_loop function_map loads fo
                       (Some (py_get fc ''id'', py_get fc ''name''))
                       (w1\<lparr>sent := sent w1 @ [msg]\<rparr>) later of
                  (locs, w', None) \<Rightarrow> (w', None)
                | (locs, w', Some e) \<Rightarrow> send_failure fo locs w' e)
         \<and> (\<exists>rest. sent (fst (handle_function_call_request function_map loads fo decoded w))
                      = sent w1 @ msg # rest)"
proof -
  obtain content where c: "json_dumps fo (PDict [(''error'',
      PStr (''Unknown function: '' @ py_str fo (py_get fc ''name'')))]) = Inr content"
    using json_dumps_error_result by blast
  obtain msg where t: "json_dumps fo (PDict [(''type'', PStr ''FunctionCallResponse''),
      (''id'', py_get fc ''id''), (''name'', py_get fc ''name''), (''content'', PStr content)])
      = Inr msg"
    using json_dumps_response [OF assms(4,5)] by blast
  let ?l = "Some (py_get fc ''id'', py_get fc ''name'')"
  let ?w = "w1\<lparr>sent := sent w1 @ [msg]\<rparr>"
  have h: "handle_function_call function_map loads fo locs1 w1 (PDict fc) = (?l, ?w, None)"
    by (rule handle_unknown [OF assms(3) c t assms(6)])
  have loop: "dispatch_loop function_map loads fo None w (before @ PDict fc # later)
      = dispatch_loop function_map loads fo ?l ?w later"
    using assms(2) h by (simp add: dispatch_loop_append)
  have req: "handle_function_call_request function_map loads fo decoded w
      = (case dispatch_loop function_map loads fo ?l ?w later of
           (locs, w', None) \<Rightarrow> (w', None)
         | (locs, w', Some e) \<Rightarrow> send_failure fo locs w' e)"
    using assms(1) loop
    by (simp add: handle_function_call_request_def py_get_default_def py_iter_def)
  obtain l2 w2 r2 where d: "dispatch_loop function_map loads fo ?l ?w later = (l2, w2, r2)"
    by (cases "dispatch_loop function_map loads fo ?l ?w later") auto
  from finish_sent [OF d] obtain rest where
    "sent (fst (case (l2, w2, r2) of
                  (l, v, None) \<Rightarrow> (v, None)
                | (l, v, Some e) \<Rightarrow> send_failure fo l v e)) = sent ?w @ rest"
    by blast
  then have "sent (fst (handle_function_call_request function_map loads fo decoded w))
      = sent w1 @ msg # rest"
    unfolding req d by simp
  with c t h loop req show ?thesis by blast
qed

theorem unknown_function_reply_witness:
  \<open>(case handle_function_call_request
            (FUNCTION_MAP no_float_ops (ast_parse_model no_float_ops) no_plaid_env)
            (json_loads_model no_float_ops) no_float_ops
            [(''type'', PStr ''FunctionCallRequest''),
             (''functions'',
              PList ([PDict [(''id'', PStr ''6''), (''name'', PStr ''first'')]]
                     @ PDict [(''id'', PStr ''7''), (''name'', PStr ''nope''),
                              (''arguments'', PStr ''{}'')]
                     # [PDict [(''id'', PStr ''8''), (''name'', PStr ''calculate''),
                               (''arguments'', PStr ''{"expression":"1+1"}'')]]))]
            open_ws of
         (w, raised) \<Rightarrow> (sent w, raised))
     = ([''{"type": "FunctionCallResponse", "id": "6", "name": "first", "content": "{''
           @ [CHR 0x5C] @ ''"error'' @ [CHR 0x5C] @ ''": '' @ [CHR 0x5C]
           @ ''"Unknown function: first'' @ [CHR 0x5C] @ ''"}"}'',
         ''{"type": "FunctionCallResponse", "id": "7", "name": "nope", "content": "{''
           @ [CHR 0x5C] @ ''"error'' @ [CHR 0x5C] @ ''": '' @ [CHR 0x5C]
           @ ''"Unknown function: nope'' @ [CHR 0x5C] @ ''"}"}'',
         ''{"type": "FunctionCallResponse", "id": "8", "name": "calculate", "content": "{''
           @ [CHR 0x5C] @ ''"result'' @ [CHR 0x5C] @ ''": 2}"}''], None)\<close>
proof -
  let ?fo = no_float_ops
  let ?fm = "FUNCTION_MAP no_float_ops (ast_parse_model no_float_ops) no_plaid_env"
  let ?loads = "json_loads_model no_float_ops"
  let ?head = "[(''id'', PStr ''6''), (''name'', PStr ''first'')] :: (string \<times> unit py) list"
  let ?fc = "[(''id'', PStr ''7''), (''name'', PStr ''nope''), (''arguments'', PStr ''{}'')]
               :: (string \<times> unit py) list"
  let ?later = \<open>[PDict [(''id'', PStr ''8''), (''name'', PStr ''calculate''),
                         (''arguments'', PStr ''{"expression":"1+1"}'')]] :: unit py list\<close>
  let ?decoded = "[(''type'', PStr ''FunctionCallRequest''),
                   (''functions'', PList ([PDict ?head] @ PDict ?fc # ?later))]"
  let ?ma = \<open>''{"type": "FunctionCallResponse", "id": "6", "name": "first", "content": "{''
           @ [CHR 0x5C] @ ''"error'' @ [CHR 0x5C] @ ''": '' @ [CHR 0x5C]
           @ ''"Unknown function: first'' @ [CHR 0x5C] @ ''"}"}''\<close>
  let ?mb = \<open>''{"type": "FunctionCallResponse", "id": "7", "name": "nope", "content": "{''
           @ [CHR 0x5C] @ ''"error'' @ [CHR 0x5C] @ ''": '' @ [CHR 0x5C]
           @ ''"Unknown function: nope'' @ [CHR 0x5C] @ ''"}"}''\<close>
  let ?wa = "open_ws\<lparr>sent := sent open_ws @ [?ma]\<rparr>"
  have lh: "lookup_function ?fm (py_get ?head ''name'') = Inr None"
    by (simp add: lookup_function_def py_get_def py_get_default_def FUNCTION_MAP_def)
  have ch: \<open>json_dumps ?fo (PDict [(''error'',
              PStr (''Unknown function: '' @ py_str ?fo (py_get ?head ''name'')))])
            = Inr ''{"error": "Unknown function: first"}''\<close>
    by code_simp
  have th: \<open>json_dumps ?fo (PDict [(''type'', PStr ''FunctionCallResponse''),
              (''id'', py_get ?head ''id''), (''name'', py_get ?head ''name''),
              (''content'', PStr ''{"error": "Unknown function: first"}'')]) = Inr ?ma\<close>
    by code_simp
  have o: "accepts open_ws (length (sent open_ws))" by (simp add: open_ws_def)
  have b: "dispatch_loop ?fm ?loads ?fo None open_ws [PDict ?head]
             = (Some (py_get ?head ''id'', py_get ?head ''name''), ?wa, None)"
    using handle_unknown [OF lh ch th o, of ?loads None] by simp
  have a: "map_of ?decoded ''functions'' = Some (PList ([PDict ?head] @ PDict ?fc # ?later))"
    by simp
  have l: "lookup_function ?fm (py_get ?fc ''name'') = Inr None"
    by (simp add: lookup_function_def py_get_def py_get_default_def FUNCTION_MAP_def)
  have i: \<open>json_dumps ?fo (py_get ?fc ''id'') = Inr ''"7"''\<close> by code_simp
  have n: \<open>json_dumps ?fo (py_get ?fc ''name'') = Inr ''"nope"''\<close> by code_simp
  have oa: "accepts ?wa (length (sent ?wa))" by (simp add: open_ws_def)
  from unknown_function_reply [OF a b l i n oa]
  obtain content msg where
    f: "json_dumps ?fo (PDict [(''error'',
          PStr (''Unknown function: '' @ py_str ?fo (py_get ?fc ''name'')))]) = Inr content"
    and g: "json_dumps ?fo (PDict [(''type'', PStr ''FunctionCallResponse''),
          (''id'', py_get ?fc ''id''), (''name'', py_get ?fc ''name''),
          (''content'', PStr content)]) = Inr msg"
    and h: "handle_function_call_request ?fm ?loads ?fo ?decoded open_ws
          = (case dispatch_loop ?fm ?loads ?fo (Some (py_get ?fc ''id'', py_get ?fc ''name''))
                    (?wa\<lparr>sent := sent ?wa @ [msg]\<rparr>) ?later of
               (locs, w', None) \<Rightarrow> (w', None)
             | (locs, w', Some e) \<Rightarrow> send_failure ?fo locs w' e)"
    by blast
  have \<open>json_dumps ?fo (PDict [(''error'',
          PStr (''Unknown function: '' @ py_str ?fo (py_get ?fc ''name'')))])
        = Inr ''{"error": "Unknown function: nope"}''\<close>
    by code_simp
  with f have content: \<open>content = ''{"error": "Unknown function: nope"}''\<close> by simp
  have \<open>json_dumps ?fo (PDict [(''type'', PStr ''FunctionCallResponse''),
          (''id'', py_get ?fc ''id''), (''name'', py_get ?fc ''name''),
          (''content'', PStr ''{"error": "Unknown function: nope"}'')]) = Inr ?mb\<close>
    by code_simp
  with g content have msg: "msg = ?mb" by simp
  have k: \<open>(case (case dispatch_loop ?fm ?loads ?fo
                          (Some (py_get ?fc ''id'', py_get ?fc ''name''))
                          (?wa\<lparr>sent := sent ?wa @ [?mb]\<rparr>) ?later of
                     (locs, w', None) \<Rightarrow> (w', None)
                   | (locs, w', Some e) \<Rightarrow> send_failure ?fo locs w' e) of
              (w, raised) \<Rightarrow> (sent w, raised))
           = ([?ma, ?mb,
               ''{"type": "FunctionCallResponse", "id": "8", "name": "calculate", "content": "{''
                 @ [CHR 0x5C] @ ''"result'' @ [CHR 0x5C] @ ''": 2}"}''], None)\<close>
    by code_simp
  show ?thesis unfolding h msg by (rule k)
qed

lemma py_get_append_other:
  "k \<noteq> k' \<Longrightarrow> py_get (fc @ [(k, v)]) k' = py_get fc k'"
  by (simp add: py_get_def py_get_default_def map_add_def split: option.splits)

lemma parse_arguments_absent:
  "map_of fc ''arguments'' = None \<Longrightarrow>
     parse_arguments loads fc = (case loads ''{}'' of Inl e \<Rightarrow> PDict [] | Inr v \<Rightarrow> v)"
  by (simp add: parse_arguments_def py_get_default_def)

lemma parse_arguments_appended:
  "map_of fc ''arguments'' = None \<Longrightarrow>
     parse_arguments loads (fc @ [(''arguments'', PStr s)])
       = (case loads s of Inl e \<Rightarrow> PDict [] | Inr v \<Rightarrow> v)"
  by (simp add: parse_arguments_def py_get_default_def map_add_def)

lemma handle_function_call_cong:
  assumes "py_get fc' ''name'' = py_get fc ''name''"
      and "py_get fc' ''id'' = py_get fc ''id''"
      and "parse_arguments loads fc' = parse_arguments loads fc"
  shows "handle_function_call function_map loads fo locs w (PDict fc')
           = handle_function_call function_map loads fo locs w (PDict fc)"
  using assms by (simp add: handle_function_call_def)

text \<open>
  Claim C8. An entry without the field \<open>arguments\<close> is handled as the same entry with
  \<open>arguments\<close> set to the text \<open>{}\<close>, and as the same entry with an
  \<open>arguments\<close> text that \<open>json.loads\<close> rejects: the parsed arguments are the
  empty dictionary, and when the name is in the registry the loop body calls the
  capability with no keyword argument (then once with the positional argument None if
  that call raises TypeError) and replies with what the call returns.
\<close>

theorem missing_arguments_as_empty_object:
  assumes "map_of fc ''arguments'' = None"
      and "loads ''{}'' = Inr (PDict [])"
      and "loads bad = Inl e"
  shows "parse_arguments loads fc = PDict []
       \<and> (\<forall>f. call_with_kwargs f (parse_arguments loads fc) = call_kw f [])
       \<and> handle_function_call function_map loads fo locs w (PDict fc)
           = handle_function_call function_map loads fo locs w
               (PDict (fc @ [(''arguments'', PStr ''{}'')]))
       \<and> handle_function_call function_map loads fo locs w (PDict fc)
           = handle_function_call function_map loads fo locs w
               (PDict (fc @ [(''arguments'', PStr bad)]))
       \<and> (\<forall>f. lookup_function function_map (py_get fc ''name'') = Inr (Some f)
            \<longrightarrow> handle_function_call function_map loads fo locs w (PDict fc)
                = (case invoke fo f (PDict []) of
                     Inl e' \<Rightarrow> (Some (py_get fc ''id'', py_get fc ''name''), w, Some e')
                   | Inr result \<Rightarrow>
                       (case create_function_call_response fo (py_get fc ''id'')
                               (py_get fc ''name'') result of
                          Inl e' \<Rightarrow> (Some (py_get fc ''id'', py_get fc ''name''), w, Some e')
                        | Inr response \<Rightarrow>
                            (case json_dumps fo response of
                               Inl e' \<Rightarrow>
                                 (Some (py_get fc ''id'', py_get fc ''name''), w, Some e')
                             | Inr msg \<Rightarrow>
                                 (case ws_send w msg of
                                    Inl e' \<Rightarrow>
                                      (Some (py_get fc ''id'', py_get fc ''name''), w, Some e')
                                  | Inr w' \<Rightarrow>
                                      (Some (py_get fc ''id'', py_get fc ''name''), w', None)))))
              \<and> invoke fo f (PDict [])
                = (case call_kw f [] of
                     Inr result \<Rightarrow> Inr result
                   | Inl e' \<Rightarrow>
                       (if exn_class e' = TypeError then call_pos1 f PNone else Inl e')))"
proof -
  have p: "parse_arguments loads fc = PDict []"
    using assms(1,2) by (simp add: parse_arguments_absent)
  have q: "parse_arguments loads (fc @ [(''arguments'', PStr ''{}'')]) = PDict []"
    using assms(1,2) by (simp add: parse_arguments_appended)
  have r: "parse_arguments loads (fc @ [(''arguments'', PStr bad)]) = PDict []"
    using assms(1,3) by (simp add: parse_arguments_appended)
  have s: "handle_function_call function_map loads fo locs w
          (PDict (fc @ [(''arguments'', PStr ''{}'')]))
        = handle_function_call function_map loads fo locs w (PDict fc)"
    by (rule handle_function_call_cong) (simp_all add: py_get_append_other p q)
  have t: "handle_function_call function_map loads fo locs w
          (PDict (fc @ [(''arguments'', PStr bad)]))
        = handle_function_call function_map loads fo locs w (PDict fc)"
    by (rule handle_function_call_cong) (simp_all add: py_get_append_other p r)
  have u: "\<And>f. invoke fo f (PDict [])
                = (case call_kw f [] of
                     Inr result \<Rightarrow> Inr result
                   | Inl e' \<Rightarrow>
                       (if exn_class e' = TypeError then call_pos1 f PNone else Inl e'))"
    by (simp add: invoke_def call_with_kwargs_def fallback_argument_def py_get_def
          py_get_default_def split: sum.splits)
  have v: "\<And>f. lookup_function function_map (py_get fc ''name'') = Inr (Some f)
            \<Longrightarrow> handle_function_call function_map loads fo locs w (PDict fc)
                = (case invoke fo f (PDict []) of
                     Inl e' \<Rightarrow> (Some (py_get fc ''id'', py_get fc ''name''), w, Some e')
                   | Inr result \<Rightarrow>
                       (case create_function_call_response fo (py_get fc ''id'')
                               (py_get fc ''name'') result of
                          Inl e' \<Rightarrow> (Some (py_get fc ''id'', py_get fc ''name''), w, Some e')
                        | Inr response \<Rightarrow>
                            (case json_dumps fo response of
                               Inl e' \<Rightarrow>
                                 (Some (py_get fc ''id'', py_get fc ''name''), w, Some e')
                             | Inr msg \<Rightarrow>
                                 (case ws_send w msg of
                                    Inl e' \<Rightarrow>
                                      (Some (py_get fc ''id'', py_get fc ''name''), w, Some e')
                                  | Inr w' \<Rightarrow>
                                      (Some (py_get fc ''id'', py_get fc ''name''), w', None)))))"
    by (simp add: handle_function_call_def Let_def p del: json_dumps.simps)
  from p s t u v show ?thesis by (simp add: call_with_kwargs_def)
qed

theorem missing_arguments_as_empty_object_witness:
  \<open>parse_arguments (json_loads_model no_float_ops)
       [(''id'', PStr ''1''), (''name'', PStr ''calculate'')] = PDict []
   \<and> (case handle_function_call
            (FUNCTION_MAP no_float_ops (ast_parse_model no_float_ops) no_plaid_env)
            (json_loads_model no_float_ops) no_float_ops None open_ws
            (PDict [(''id'', PStr ''1''), (''name'', PStr ''calculate'')]) of
         (locs, w, raised) \<Rightarrow> (sent w, raised))
     = ([''{"type": "FunctionCallResponse", "id": "1", "name": "calculate", "content": "{''
           @ [CHR 0x5C] @ ''"error'' @ [CHR 0x5C] @ ''": '' @ [CHR 0x5C]
           @ ''"Empty expression'' @ [CHR 0x5C] @ ''"}"}''], None)
   \<and> handle_function_call
         (FUNCTION_MAP no_float_ops (ast_parse_model no_float_ops) no_plaid_env)
         (json_loads_model no_float_ops) no_float_ops None open_ws
         (PDict [(''id'', PStr ''1''), (''name'', PStr ''calculate'')])
     = handle_function_call
         (FUNCTION_MAP no_float_ops (ast_parse_model no_float_ops) no_plaid_env)
         (json_loads_model no_float_ops) no_float_ops None open_ws
         (PDict ([(''id'', PStr ''1''), (''name'', PStr ''calculate'')]
                   @ [(''arguments'', PStr ''{oops'')]))\<close>
proof -
  let ?fm = "FUNCTION_MAP no_float_ops (ast_parse_model no_float_ops) no_plaid_env"
  let ?f = "calculate_fn no_float_ops (ast_parse_model no_float_ops)"
  let ?fc = "[(''id'', PStr ''1''), (''name'', PStr ''calculate'')] :: (string \<times> unit py) list"
  let ?msg = \<open>''{"type": "FunctionCallResponse", "id": "1", "name": "calculate", "content": "{''
           @ [CHR 0x5C] @ ''"error'' @ [CHR 0x5C] @ ''": '' @ [CHR 0x5C]
           @ ''"Empty expression'' @ [CHR 0x5C] @ ''"}"}''\<close>
  have a: "map_of ?fc ''arguments'' = None" by simp
  have b: "json_loads_model no_float_ops ''{}'' = Inr (PDict [])" by code_simp
  have c: "json_loads_model no_float_ops ''{oops'' = Inl (Exn ValueError ''Expecting value'')"
    by code_simp
  note t = missing_arguments_as_empty_object
             [OF a b c, of ?fm no_float_ops None open_ws]
  have l: "lookup_function ?fm (py_get ?fc ''name'') = Inr (Some ?f)"
    by (simp add: lookup_function_def py_get_def py_get_default_def FUNCTION_MAP_def)
  have i: "invoke no_float_ops ?f (PDict [])
             = Inr (PDict [(''error'', PStr ''Empty expression'')])"
    by code_simp
  have r: \<open>create_function_call_response no_float_ops (py_get ?fc ''id'') (py_get ?fc ''name'')
             (PDict [(''error'', PStr ''Empty expression'')])
           = Inr (PDict [(''type'', PStr ''FunctionCallResponse''), (''id'', PStr ''1''),
                         (''name'', PStr ''calculate''),
                         (''content'', PStr ''{"error": "Empty expression"}'')])\<close>
    by code_simp
  have d: \<open>json_dumps no_float_ops
             (PDict [(''type'', PStr ''FunctionCallResponse''), (''id'', PStr ''1''),
                     (''name'', PStr ''calculate''),
                     (''content'', PStr ''{"error": "Empty expression"}'')])
           = Inr ?msg\<close>
    by code_simp
  have s: "ws_send open_ws ?msg = Inr (open_ws\<lparr>sent := [?msg]\<rparr>)"
    by (simp add: ws_send_def open_ws_def)
  from t l have
    "handle_function_call ?fm (json_loads_model no_float_ops) no_float_ops None open_ws (PDict ?fc)
       = (case invoke no_float_ops ?f (PDict []) of
            Inl e' \<Rightarrow> (Some (py_get ?fc ''id'', py_get ?fc ''name''), open_ws, Some e')
          | Inr result \<Rightarrow>
              (case create_function_call_response no_float_ops (py_get ?fc ''id'')
                      (py_get ?fc ''name'') result of
                 Inl e' \<Rightarrow> (Some (py_get ?fc ''id'', py_get ?fc ''name''), open_ws, Some e')
               | Inr response \<Rightarrow>
                   (case json_dumps no_float_ops response of
                      Inl e' \<Rightarrow> (Some (py_get ?fc ''id'', py_get ?fc ''name''), open_ws, Some e')
                    | Inr msg \<Rightarrow>
                        (case ws_send open_ws msg of
                           Inl e' \<Rightarrow>
                             (Some (py_get ?fc ''id'', py_get ?fc ''name''), open_ws, Some e')
                         | Inr w' \<Rightarrow>
                             (Some (py_get ?fc ''id'', py_get ?fc ''name''), w', None)))))"
    by blast
  then have h: "handle_function_call ?fm (json_loads_model no_float_ops) no_float_ops None
                  open_ws (PDict ?fc)
       = (Some (py_get ?fc ''id'', py_get ?fc ''name''), open_ws\<lparr>sent := [?msg]\<rparr>, None)"
    unfolding i sum.case r d s by simp
  have "(case handle_function_call ?fm (json_loads_model no_float_ops) no_float_ops None
                  open_ws (PDict ?fc) of (locs, w, raised) \<Rightarrow> (sent w, raised))
       = ([?msg], None)"
    unfolding h by simp
  with t show ?thesis by blast
qed

section \<open>The fallback argument and capability failures\<close>

text \<open>
  Claim C2 says that the presence of a key, not the truthiness of its value, chooses the
  fallback argument. The code chooses with \<open>or\<close>: with the arguments
  \<open>{"expression": "", "query": "1+1"}\<close> the call with keywords raises TypeError, and
  the retry passes \<open>"1+1"\<close> and returns 2, while the first key present holds the
  empty text, for which the capability returns the error "Empty expression".
\<close>

theorem fallback_by_presence_counterexample:
  "call_kw (calculate_fn no_float_ops (ast_parse_model no_float_ops))
       [(''expression'', PStr []), (''query'', PStr ''1+1'')]
     = Inl (Exn TypeError (''calculate() got an unexpected keyword argument '' @ quoted ''query''))
   \<and> invoke no_float_ops (calculate_fn no_float_ops (ast_parse_model no_float_ops))
       (PDict [(''expression'', PStr []), (''query'', PStr ''1+1'')])
     = Inr (PDict [(''result'', PInt 2)])
   \<and> call_pos1 (calculate_fn no_float_ops (ast_parse_model no_float_ops))
       (spec_first_present [(''expression'', PStr []), (''query'', PStr ''1+1'')])
     = Inr (PDict [(''error'', PStr ''Empty expression'')])"
  by code_simp

lemma bind_defaults_required: "bind_defaults [(p, None)] q = PNone"
  by (simp add: bind_defaults_def)

lemma bind_defaults_Nil: "bind_defaults [] q = PNone"
  by (simp add: bind_defaults_def)

lemma single_parameter_call:
  assumes "fn_params f = [(p, None)]"
  shows "invoke fo f (PDict [(''expression'', PStr ''2+2'')])
           = fn_body f (\<lambda>q. if q = p then PStr ''2+2'' else PNone)"
proof (cases "p = ''expression''")
  case True
  have kw: "call_kw f [(''expression'', PStr ''2+2'')]
              = fn_body f (\<lambda>q. if q = p then PStr ''2+2'' else PNone)"
    using assms True
    apply (simp add: call_kw_def)
    apply (rule arg_cong [where f = "fn_body f"])
    apply (rule ext)
    apply (simp add: bind_defaults_required)
    done
  have pos: "call_pos1 f (PStr ''2+2'')
              = fn_body f (\<lambda>q. if q = p then PStr ''2+2'' else PNone)"
    using assms by (simp add: call_pos1_def bind_defaults_Nil cong: if_cong)
  show ?thesis
    using kw pos
    by (simp add: invoke_def call_with_kwargs_def fallback_argument_def py_get_def
          py_get_default_def split: sum.splits)
next
  case False
  have kw: "call_kw f [(''expression'', PStr ''2+2'')]
              = Inl (Exn TypeError
                  (fn_name f @ ''() got an unexpected keyword argument '' @ quoted ''expression''))"
    using assms False by (simp add: call_kw_def)
  have pos: "call_pos1 f (PStr ''2+2'')
              = fn_body f (\<lambda>q. if q = p then PStr ''2+2'' else PNone)"
    using assms by (simp add: call_pos1_def bind_defaults_Nil cong: if_cong)
  show ?thesis
    using kw pos
    by (simp add: invoke_def call_with_kwargs_def fallback_argument_def py_get_def
          py_get_default_def)
qed

text \<open>
  Claim C2 as amended. When the call with keyword arguments raises TypeError, the result
  of the invocation is the result of one call with a single positional argument, whatever
  that call returns or raises. The argument is \<open>arguments.get("expression")\<close> when
  that is truthy, else \<open>arguments.get("query")\<close> when that is truthy, else
  \<open>arguments.get("input")\<close>. And a capability with one required parameter, dispatched
  with \<open>{"expression": "2+2"}\<close>, runs its body with \<open>"2+2"\<close> bound to that
  parameter.
\<close>

theorem fallback_retry:
  assumes "call_kw f kwargs = Inl e" and "exn_class e = TypeError"
  shows "invoke fo f (PDict kwargs) = call_pos1 f (fallback_argument fo kwargs)
       \<and> (truthy fo (py_get kwargs ''expression'')
            \<longrightarrow> fallback_argument fo kwargs = py_get kwargs ''expression'')
       \<and> (\<not> truthy fo (py_get kwargs ''expression'') \<and> truthy fo (py_get kwargs ''query'')
            \<longrightarrow> fallback_argument fo kwargs = py_get kwargs ''query'')
       \<and> (\<not> truthy fo (py_get kwargs ''expression'') \<and> \<not> truthy fo (py_get kwargs ''query'')
            \<longrightarrow> fallback_argument fo kwargs = py_get kwargs ''input'')
       \<and> (\<forall>g p. fn_params g = [(p, None)]
            \<longrightarrow> invoke fo g (PDict [(''expression'', PStr ''2+2'')])
                = fn_body g (\<lambda>q. if q = p then PStr ''2+2'' else PNone))"
proof -
  have "invoke fo f (PDict kwargs) = call_pos1 f (fallback_argument fo kwargs)"
    using assms by (simp add: invoke_def call_with_kwargs_def)
  then show ?thesis
    using single_parameter_call by (auto simp: fallback_argument_def)
qed

theorem fallback_retry_witness:
  "invoke no_float_ops (calculate_fn no_float_ops (ast_parse_model no_float_ops))
       (PDict [(''query'', PStr ''2+3''), (''input'', PStr ''7'')])
     = Inr (PDict [(''result'', PInt 5)])"
proof -
  let ?f = "calculate_fn no_float_ops (ast_parse_model no_float_ops)"
  let ?kw = "[(''query'', PStr ''2+3''), (''input'', PStr ''7'')] :: (string \<times> unit py) list"
  have a: "call_kw ?f ?kw
     = Inl (Exn TypeError (''calculate() got an unexpected keyword argument '' @ quoted ''query''))"
    by code_simp
  have b: "exn_class (Exn TypeError
     (''calculate() got an unexpected keyword argument '' @ quoted ''query'')) = TypeError"
    by simp
  have c: "\<not> truthy no_float_ops (py_get ?kw ''expression'') \<and> truthy no_float_ops (py_get ?kw ''query'')"
    by code_simp
  have d: "call_pos1 ?f (py_get ?kw ''query'') = Inr (PDict [(''result'', PInt 5)])"
    by code_simp
  from fallback_retry [OF a b, of no_float_ops] c
  have "invoke no_float_ops ?f (PDict ?kw) = call_pos1 ?f (py_get ?kw ''query'')"
    by simp
  with d show ?thesis by simp
qed






text \<open>
  The same happens with the registry of the repository when the retry itself raises:
  \<open>get_financial_info\<close> called with no arguments fails as a call with keywords and as
  a call with one positional argument, and the entry after it gets no reply.
\<close>

lemma retry_failure_ends_loop_example:
  \<open>(case handle_function_call_request
            (FUNCTION_MAP no_float_ops (ast_parse_model no_float_ops) no_plaid_env)
            (json_loads_model no_float_ops) no_float_ops
            [(''type'', PStr ''FunctionCallRequest''),
             (''functions'',
              PList [PDict [(''id'', PStr ''1''), (''name'', PStr ''get_financial_info''),
                            (''arguments'', PStr ''{}'')],
                     PDict [(''id'', PStr ''2''), (''name'', PStr ''calculate''),
                            (''arguments'', PStr ''{"expression":"1+1"}'')]])]
            open_ws of
         (w, raised) \<Rightarrow> (length (sent w), raised))
     = (1, None)\<close>
  by code_simp

text \<open>
  The receiving loop hands a decoded \<open>FunctionCallRequest\<close> to the dispatcher and
  keeps the connection, whatever the dispatcher raised.
\<close>

lemma receive_text_request:
  assumes "loads message = Inr (PDict decoded)"
      and "py_get decoded ''type'' = PStr ''FunctionCallRequest''"
  shows "receive_text function_map loads fo w message
           = fst (handle_function_call_request function_map loads fo decoded w)"
  using assms by (simp add: receive_text_def)

section \<open>The worked example\<close>

text \<open>
  Claim C4. The inbound control message of the specification decodes to a request with
  one entry; dispatching it sends exactly one message and raises nothing; and the message
  sent decodes to the reply of the specification, whose content is the text
  \<open>{"result": 20}\<close>. This holds for every floating-point arithmetic and every Plaid
  environment.
\<close>

theorem example_end_to_end:
  \<open>json_loads_model (fo :: ('f::equal) float_ops)
      (''{"type":"FunctionCallRequest","functions":[{"id":"abc","name":"calculate","arguments":"{''
        @ [CHR 0x5C] @ ''"expression'' @ [CHR 0x5C] @ ''":'' @ [CHR 0x5C] @ ''"(2+3)*4''
        @ [CHR 0x5C] @ ''"}"}]}'')
     = Inr (PDict [(''type'', PStr ''FunctionCallRequest''),
                   (''functions'',
                    PList [PDict [(''id'', PStr ''abc''), (''name'', PStr ''calculate''),
                                  (''arguments'', PStr ''{"expression":"(2+3)*4"}'')]])])
   \<and> (case handle_function_call_request (FUNCTION_MAP fo (ast_parse_model fo) env)
              (json_loads_model fo) fo
              [(''type'', PStr ''FunctionCallRequest''),
               (''functions'',
                PList [PDict [(''id'', PStr ''abc''), (''name'', PStr ''calculate''),
                              (''arguments'', PStr ''{"expression":"(2+3)*4"}'')]])]
              open_ws of
           (w, raised) \<Rightarrow> (sent w, raised))
     = ([''{"type": "FunctionCallResponse", "id": "abc", "name": "calculate", "content": "{''
           @ [CHR 0x5C] @ ''"result'' @ [CHR 0x5C] @ ''": 20}"}''], None)
   \<and> json_loads_model fo
        (''{"type": "FunctionCallResponse", "id": "abc", "name": "calculate", "content": "{''
           @ [CHR 0x5C] @ ''"result'' @ [CHR 0x5C] @ ''": 20}"}'')
     = Inr (PDict [(''type'', PStr ''FunctionCallResponse''), (''id'', PStr ''abc''),
                   (''name'', PStr ''calculate''), (''content'', PStr ''{"result": 20}'')])\<close>
  by code_simp

section \<open>Properties of the financial lookup\<close>

text \<open>
  Claim C10 says that every request type other than the five accepted ones is answered
  with the error "Invalid request_type. Use 'balance' or 'transactions'.". The code
  configures the client and resolves the account names before it looks at the request
  type, and it calls \<open>strip\<close> on whatever truthy value it was given: an unknown
  account, a missing Plaid package and a request type that is a number are each answered
  with another error.
\<close>

theorem request_type_checked_last_counterexample:
  "get_financial_info sandbox_env no_float_ops (PStr ''chase'') (PStr ''bogus'') PNone PNone
     = PDict [(''error'',
         PStr (''No accounts resolved. Allowed names: ally, discover, huntington, pnc. ''
               @ ''Tokens present for: pnc. Use '' @ quoted ''all''
               @ '' to include all with tokens.''))]
   \<and> get_financial_info no_plaid_env no_float_ops (PStr ''pnc'') (PStr ''bogus'') PNone PNone
     = PDict [(''error'',
         PStr (''Missing dependency '' @ quoted ''plaid-python''
               @ ''. Install with: pip install plaid-python''))]
   \<and> get_financial_info sandbox_env no_float_ops (PStr ''pnc'') (PInt 5) PNone PNone
     = PDict [(''error'',
         PStr (quoted ''int'' @ '' object has no attribute '' @ quoted ''strip''))]
   \<and> PStr invalid_request_type
     = (PStr (''Invalid request_type. Use '' @ quoted ''balance'' @ '' or ''
               @ quoted ''transactions'' @ ''.'') :: unit py)"
  by code_simp

lemma request_type_text_cases:
  "request_type_text fo request_type
     = (if \<not> truthy fo request_type then Inr []
        else (case request_type of
                PStr s \<Rightarrow> Inr (py_lower (py_strip s))
              | v \<Rightarrow> Inl (no_attribute v ''strip'')))"
  by (cases request_type)
     (simp_all add: request_type_text_def py_strip_Nil py_lower_def)

text \<open>
  Claim C10 as amended. \<open>get_financial_info\<close> returns in every case. When the client
  cannot be built, or the account names do not resolve, it returns the message of that
  failure as an error result, whatever the request type. Otherwise a truthy request type
  that is not text is answered with the message of the AttributeError; a request type
  that is text is stripped and lowercased, a falsy one (None included) counts as the
  empty text, and the normalised text decides: other than \<open>balance\<close>,
  \<open>balances\<close>, \<open>transactions\<close>, \<open>txns\<close>, \<open>txn\<close> it is answered with the
  error "Invalid request_type. Use 'balance' or 'transactions'."; the first two go to the
  balances, the last three to the transactions, and an exception of a branch becomes an
  error result.
\<close>

theorem request_type_check:
  "(\<forall>e. init_plaid_client env = Inl e
        \<longrightarrow> get_financial_info env fo account_names request_type start_date end_date
            = PDict [(''error'', PStr (exn_str e))])
   \<and> (\<forall>client e. init_plaid_client env = Inr client
        \<longrightarrow> resolve_selected_accounts env fo account_names = Inl e
        \<longrightarrow> get_financial_info env fo account_names request_type start_date end_date
            = PDict [(''error'', PStr (exn_str e))])
   \<and> (\<forall>client selected. init_plaid_client env = Inr client
        \<longrightarrow> resolve_selected_accounts env fo account_names = Inr selected
        \<longrightarrow> (truthy fo request_type \<and> (\<forall>s. request_type \<noteq> PStr s)
              \<longrightarrow> get_financial_info env fo account_names request_type start_date end_date
                  = PDict [(''error'', PStr (exn_str (no_attribute request_type ''strip'')))])
          \<and> (\<forall>s. request_type = PStr s
                \<longrightarrow> request_type_text fo request_type = Inr (py_lower (py_strip s)))
          \<and> (\<not> truthy fo request_type \<longrightarrow> request_type_text fo request_type = Inr [])
          \<and> (\<forall>rtype. request_type_text fo request_type = Inr rtype
                \<longrightarrow> (rtype \<notin> set [''balance'', ''balances'', ''transactions'', ''txns'', ''txn'']
                      \<longrightarrow> get_financial_info env fo account_names request_type start_date end_date
                          = PDict [(''error'', PStr invalid_request_type)])
                  \<and> (rtype \<in> set [''balance'', ''balances'']
                      \<longrightarrow> get_financial_info env fo account_names request_type start_date end_date
                          = (case balances_branch env client selected of
                               Inl e \<Rightarrow> PDict [(''error'', PStr (exn_str e))]
                             | Inr r \<Rightarrow> r))
                  \<and> (rtype \<in> set [''transactions'', ''txns'', ''txn'']
                      \<longrightarrow> get_financial_info env fo account_names request_type start_date end_date
                          = (case transactions_branch env client selected start_date end_date of
                               Inl e \<Rightarrow> PDict [(''error'', PStr (exn_str e))]
                             | Inr r \<Rightarrow> r))))"
proof (intro conjI allI impI)
  fix e assume "init_plaid_client env = Inl e"
  then show "get_financial_info env fo account_names request_type start_date end_date
               = PDict [(''error'', PStr (exn_str e))]"
    by (simp add: get_financial_info_def get_financial_info_body_def error_result_def)
next
  fix client e
  assume "init_plaid_client env = Inr client"
     and "resolve_selected_accounts env fo account_names = Inl e"
  then show "get_financial_info env fo account_names request_type start_date end_date
               = PDict [(''error'', PStr (exn_str e))]"
    by (simp add: get_financial_info_def get_financial_info_body_def error_result_def)
next
  fix client selected
  assume a: "init_plaid_client env = Inr client"
     and b: "resolve_selected_accounts env fo account_names = Inr selected"
     and c: "truthy fo request_type \<and> (\<forall>s. request_type \<noteq> PStr s)"
  from c have "request_type_text fo request_type = Inl (no_attribute request_type ''strip'')"
    by (cases request_type) (simp_all add: request_type_text_cases)
  with a b
  show "get_financial_info env fo account_names request_type start_date end_date
          = PDict [(''error'', PStr (exn_str (no_attribute request_type ''strip'')))]"
    by (simp add: get_financial_info_def get_financial_info_body_def error_result_def)
next
  fix s assume "request_type = PStr s"
  then show "request_type_text fo request_type = Inr (py_lower (py_strip s))"
    by (cases "s = []") (simp_all add: request_type_text_def py_strip_Nil)
next
  assume "\<not> truthy fo request_type"
  then show "request_type_text fo request_type = Inr []"
    by (simp add: request_type_text_cases)
next
  fix client selected rtype
  assume "init_plaid_client env = Inr client"
     and "resolve_selected_accounts env fo account_names = Inr selected"
     and "request_type_text fo request_type = Inr rtype"
     and "rtype \<notin> set [''balance'', ''balances'', ''transactions'', ''txns'', ''txn'']"
  then
  show "get_financial_info env fo account_names request_type start_date end_date
          = PDict [(''error'', PStr invalid_request_type)]"
    by (simp add: get_financial_info_def get_financial_info_body_def error_result_def)
next
  fix client selected rtype
  assume "init_plaid_client env = Inr client"
     and "resolve_selected_accounts env fo account_names = Inr selected"
     and "request_type_text fo request_type = Inr rtype"
     and "rtype \<in> set [''balance'', ''balances'']"
  then
  show "get_financial_info env fo account_names request_type start_date end_date
          = (case balances_branch env client selected of
               Inl e \<Rightarrow> PDict [(''error'', PStr (exn_str e))] | Inr r \<Rightarrow> r)"
    by (auto simp: get_financial_info_def get_financial_info_body_def error_result_def
          split: sum.splits)
next
  fix client selected rtype
  assume "init_plaid_client env = Inr client"
     and "resolve_selected_accounts env fo account_names = Inr selected"
     and "request_type_text fo request_type = Inr rtype"
     and "rtype \<in> set [''transactions'', ''txns'', ''txn'']"
  then
  show "get_financial_info env fo account_names request_type start_date end_date
          = (case transactions_branch env client selected start_date end_date of
               Inl e \<Rightarrow> PDict [(''error'', PStr (exn_str e))] | Inr r \<Rightarrow> r)"
    by (auto simp: get_financial_info_def get_financial_info_body_def error_result_def
          split: sum.splits)
qed

theorem request_type_check_witness:
  "get_financial_info sandbox_env no_float_ops (PStr ''PNC'') PNone PNone PNone
     = PDict [(''error'', PStr invalid_request_type)]
   \<and> get_financial_info sandbox_env no_float_ops (PStr ''PNC'') (PStr '' Balances '') PNone PNone
     = PStr ''Pnc: No accounts found.''
   \<and> get_financial_info sandbox_env no_float_ops (PStr ''PNC'') (PBool True) PNone PNone
     = PDict [(''error'',
         PStr (quoted ''bool'' @ '' object has no attribute '' @ quoted ''strip''))]
   \<and> get_financial_info sandbox_env no_float_ops (PStr ''discover'') (PStr ''txn'') PNone PNone
     = PDict [(''error'',
         PStr (''No accounts resolved. Allowed names: ally, discover, huntington, pnc. ''
               @ ''Tokens present for: pnc. Use '' @ quoted ''all''
               @ '' to include all with tokens.''))]
   \<and> get_financial_info
         (sandbox_env\<lparr>getenv := (\<lambda>k. if k = ''PLAID_ENV'' then Some ''development''
                                      else getenv sandbox_env k)\<rparr>)
         no_float_ops (PStr ''PNC'') (PStr ''bogus'') PNone PNone
     = PDict [(''error'',
         PStr (''type object '' @ quoted ''Environment'' @ '' has no attribute ''
               @ quoted ''Development''))]"
proof -
  let ?dev = "sandbox_env\<lparr>getenv := (\<lambda>k. if k = ''PLAID_ENV'' then Some ''development''
                                           else getenv sandbox_env k)\<rparr>"
  have a: "init_plaid_client sandbox_env = Inr (''Sandbox'', ''client'', ''secret'')"
    by code_simp
  have b: "resolve_selected_accounts sandbox_env no_float_ops (PStr ''PNC'')
             = Inr [(''pnc'', ''token'')]"
    by code_simp
  note t1 = request_type_check [of sandbox_env no_float_ops "PStr ''PNC''" PNone PNone PNone]
  note t2 = request_type_check
              [of sandbox_env no_float_ops "PStr ''PNC''" "PStr '' Balances ''" PNone PNone]
  note t3 = request_type_check
              [of sandbox_env no_float_ops "PStr ''PNC''" "PBool True" PNone PNone]
  note t4 = request_type_check
              [of sandbox_env no_float_ops "PStr ''discover''" "PStr ''txn''" PNone PNone]
  note t5 = request_type_check [of ?dev no_float_ops "PStr ''PNC''" "PStr ''bogus''" PNone PNone]
  have n: "request_type_text no_float_ops PNone = Inr []"
    using t1 a b by simp
  have c1: "get_financial_info sandbox_env no_float_ops (PStr ''PNC'') PNone PNone PNone
          = PDict [(''error'', PStr invalid_request_type)]"
    using t1 a b n by simp
  have "py_lower (py_strip '' Balances '') = ''balances''" by code_simp
  then have s: "request_type_text no_float_ops (PStr '' Balances '') = Inr ''balances''"
    using t2 a b by simp
  have "get_financial_info sandbox_env no_float_ops (PStr ''PNC'') (PStr '' Balances '') PNone PNone
          = (case balances_branch sandbox_env (''Sandbox'', ''client'', ''secret'')
                    [(''pnc'', ''token'')] of
               Inl e \<Rightarrow> PDict [(''error'', PStr (exn_str e))] | Inr r \<Rightarrow> r)"
    using t2 a b s by simp
  then have c2: "get_financial_info sandbox_env no_float_ops (PStr ''PNC'') (PStr '' Balances '')
               PNone PNone = PStr ''Pnc: No accounts found.''"
    by (simp add: sandbox_env_def)
  have "truthy no_float_ops (PBool True) \<and> (\<forall>s. PBool True \<noteq> (PStr s :: unit py))" by simp
  with t3 a b
  have "get_financial_info sandbox_env no_float_ops (PStr ''PNC'') (PBool True) PNone PNone
          = PDict [(''error'', PStr (exn_str (no_attribute (PBool True :: unit py) ''strip'')))]"
    by blast
  then have c3: "get_financial_info sandbox_env no_float_ops (PStr ''PNC'') (PBool True) PNone PNone
     = PDict [(''error'',
         PStr (quoted ''bool'' @ '' object has no attribute '' @ quoted ''strip''))]"
    by (simp add: no_attribute_def)
  have d: "resolve_selected_accounts sandbox_env no_float_ops (PStr ''discover'')
     = Inl (Exn ValueError
         (''No accounts resolved. Allowed names: ally, discover, huntington, pnc. ''
               @ ''Tokens present for: pnc. Use '' @ quoted ''all''
               @ '' to include all with tokens.''))"
    by code_simp
  have c4: "get_financial_info sandbox_env no_float_ops (PStr ''discover'') (PStr ''txn'') PNone PNone
     = PDict [(''error'',
         PStr (''No accounts resolved. Allowed names: ally, discover, huntington, pnc. ''
               @ ''Tokens present for: pnc. Use '' @ quoted ''all''
               @ '' to include all with tokens.''))]"
    using t4 a d by simp
  have e: "init_plaid_client ?dev
     = Inl (Exn AttributeError
         (''type object '' @ quoted ''Environment'' @ '' has no attribute ''
               @ quoted ''Development''))"
    by code_simp
  have c5: "get_financial_info ?dev no_float_ops (PStr ''PNC'') (PStr ''bogus'') PNone PNone
     = PDict [(''error'',
         PStr (''type object '' @ quoted ''Environment'' @ '' has no attribute ''
               @ quoted ''Development''))]"
    using t5 e by simp
  from c1 c2 c3 c4 c5 show ?thesis by blast
qed

end
